theory Spec2Isabelle
  imports Main "HOL-Library.Multiset"
begin

section \<open>Data model of \<open>cmd/vclusterctl/cmd/connect.go\<close>\<close>

text \<open>
  Go's \<open>error\<close> interface. \<open>ErrWaitTimeout\<close> is the value \<open>wait.PollImmediate\<close> returns
  when its deadline elapses; \<open>NotFound\<close> and \<open>Other\<close> are the errors of the cluster API
  (the first is the one \<open>kerrors.IsNotFound\<close> recognises); \<open>Errorf\<close> is an error built
  by \<open>fmt.Errorf\<close> with its formatted message; \<open>Wrap e msg\<close> is \<open>errors.Wrap(e, msg)\<close>.
\<close>

datatype error =
    ErrWaitTimeout
  | NotFound string
  | Other string
  | Errorf string
  | Wrap error string

fun Error :: "error \<Rightarrow> string" where
  "Error ErrWaitTimeout = ''timed out waiting for the condition''"
| "Error (NotFound m) = m"
| "Error (Other m) = m"
| "Error (Errorf m) = m"
| "Error (Wrap e m) = m @ '': '' @ Error e"

fun IsNotFound :: "error \<Rightarrow> bool" where
  "IsNotFound (NotFound m) = True"
| "IsNotFound e = False"

text \<open>The chain of errors an error wraps, outermost first (the error itself included).\<close>

fun causes :: "error \<Rightarrow> error list" where
  "causes (Wrap e m) = Wrap e m # causes e"
| "causes e = [e]"

text \<open>
  A pod as the resolver reads it: its name, \<open>CreationTimestamp.Unix()\<close> in seconds, and
  the deletion timestamp, a nil pointer (\<open>None\<close>) unless the pod is terminating.
\<close>

record Pod =
  Name :: string
  CreationTimestamp :: int
  DeletionTimestamp :: "int option"

record LoadBalancerIngress =
  Hostname :: string
  IP :: string

text \<open>\<open>corev1.ServiceType\<close> is a string type; \<open>Ingress\<close> is \<open>Status.LoadBalancer.Ingress\<close>.\<close>

record Service =
  Type :: string
  Ingress :: "LoadBalancerIngress list"

definition ServiceTypeLoadBalancer :: string where
  "ServiceTypeLoadBalancer = ''LoadBalancer''"

record Cluster =
  Server :: string
  CertificateAuthorityData :: string

type_synonym AuthInfo = string

record Context =
  ContextCluster :: string
  ContextAuthInfo :: string

text \<open>
  \<open>api.Config\<close>. Each Go map is an association list with distinct keys, in the order
  the \<open>range\<close> loops visit it, so \<open>len(kubeConfig.Clusters)\<close> is the length of the list.
\<close>

record Config =
  Clusters :: "(string \<times> Cluster) list"
  AuthInfos :: "(string \<times> AuthInfo) list"
  Contexts :: "(string \<times> Context) list"
  CurrentContext :: string

text \<open>\<open>ConnectCmd\<close>, with the two fields of the embedded \<open>GlobalFlags\<close> the command reads.\<close>

record ConnectCmd =
  cmd_Context :: string
  cmd_Namespace :: string
  cmd_KubeConfig :: string
  cmd_PodName :: string
  cmd_UpdateCurrent :: bool
  cmd_Print :: bool
  cmd_LocalPort :: int
  cmd_Address :: string
  cmd_Server :: string

text \<open>
  Every interaction with the outside is an event of the trace, oldest first, with the
  arguments of the call: the cluster queries, the in-container command, the logger, the
  hand-off of the finished document and the start of the tunnel.
\<close>

datatype event =
    ListPods string string
  | ReadKubeConfig string string
  | ExecBuffered string string string "string list"
  | GetService string string
  | Infof string
  | Donef string
  | UpdateKubeConfig string "Cluster option" "AuthInfo option" bool
  | StdoutWrite string
  | WriteFile string string
  | StartPortForwardingWithRestart string string string string string

text \<open>
  What a call of \<open>Connect\<close> does: it returns an error or nil, or it never returns
  because the tunnel call it ends with blocks for the rest of the process.
\<close>

datatype result = Returns "error option" | Blocks

text \<open>
  The collaborators outside this file: the kube config loader, the cluster API, the
  helpers of other packages, and the library functions. Answers of the polled calls are
  given by the number of the poll attempt that makes the call, starting at 0.
  \<open>ticks interval timeout\<close> is the number of times \<open>wait.PollImmediate\<close> runs its
  condition after the first, immediate run before the deadline ends the poll, both
  arguments in seconds. \<open>SortSlice less xs\<close> is the slice after
  \<open>sort.Slice\<close>, which Go leaves unspecified among elements that compare equal.
\<close>

record env =
  ClientConfig :: "error option"
  NewForConfig :: "error option"
  LoaderNamespace :: "error + string"
  ticks :: "nat \<Rightarrow> nat \<Rightarrow> nat"
  PodsList :: "nat \<Rightarrow> error + Pod list"
  SortSlice :: "(Pod \<Rightarrow> Pod \<Rightarrow> bool) \<Rightarrow> Pod list \<Rightarrow> Pod list"
  ReadKubeConfigR :: "nat \<Rightarrow> error + Config"
  ExecBufferedR :: "nat \<Rightarrow> error + string"
  Load :: "string \<Rightarrow> error + Config"
  ServicesGet :: "nat \<Rightarrow> error + Service"
  Write :: "Config \<Rightarrow> error + string"
  UpdateKubeConfigR :: "error option"
  StdoutWriteR :: "error option"
  WriteFileR :: "error option"
  StartPortForwarding :: result

section \<open>Library functions\<close>

text \<open>
  \<open>wait.PollImmediate\<close>: the condition runs once immediately and then once per tick; an
  error of the condition ends the poll with that error, \<open>done\<close> ends it with nil, and
  running out of ticks ends it with \<open>ErrWaitTimeout\<close>. The condition is a closure: it
  gets the attempt number and the variables it captures, and returns them updated.
\<close>

type_synonym 's ConditionFunc = "nat \<Rightarrow> 's \<Rightarrow> (bool \<times> error option) \<times> 's"

fun pollInternal :: "nat \<Rightarrow> nat \<Rightarrow> 's ConditionFunc \<Rightarrow> 's \<Rightarrow> error option \<times> 's" where
  "pollInternal 0 i condition s = (Some ErrWaitTimeout, s)"
| "pollInternal (Suc k) i condition s =
     (case condition i s of
        ((done, Some err), s') \<Rightarrow> (Some err, s')
      | ((True, None), s') \<Rightarrow> (None, s')
      | ((False, None), s') \<Rightarrow> pollInternal k (Suc i) condition s')"

definition PollImmediate :: "nat \<Rightarrow> 's ConditionFunc \<Rightarrow> 's \<Rightarrow> error option \<times> 's" where
  "PollImmediate k condition s =
     (case condition 0 s of
        ((done, Some err), s') \<Rightarrow> (Some err, s')
      | ((True, None), s') \<Rightarrow> (None, s')
      | ((False, None), s') \<Rightarrow> pollInternal k 1 condition s')"

text \<open>\<open>strings.HasPrefix\<close>, \<open>strings.Split\<close> on a one-character separator, \<open>strings.Join\<close>.\<close>

definition HasPrefix :: "string \<Rightarrow> string \<Rightarrow> bool" where
  "HasPrefix s p = (take (length p) s = p)"

fun Split :: "string \<Rightarrow> char \<Rightarrow> string list" where
  "Split [] sep = [[]]"
| "Split (c # cs) sep =
     (if c = sep then [] # Split cs sep
      else (case Split cs sep of
              [] \<Rightarrow> [[c]]
            | w # ws \<Rightarrow> (c # w) # ws))"

fun Join :: "string list \<Rightarrow> string \<Rightarrow> string" where
  "Join [] sep = []"
| "Join [x] sep = x"
| "Join (x # y # ys) sep = x @ sep @ Join (y # ys) sep"

text \<open>\<open>strconv.Itoa\<close>: the decimal digits, with a minus sign for a negative number.\<close>

definition digitChar :: "nat \<Rightarrow> char" where
  "digitChar d = ''0123456789'' ! d"

fun natDigits :: "nat \<Rightarrow> string" where
  "natDigits n = (if n < 10 then [digitChar n] else natDigits (n div 10) @ [digitChar (n mod 10)])"

definition Itoa :: "int \<Rightarrow> string" where
  "Itoa i = (if i < 0 then CHR ''-'' # natDigits (nat (- i)) else natDigits (nat i))"

declare natDigits.simps [simp del]

section \<open>The connect command\<close>

subsection \<open>Loading the client (lines 98 to 116)\<close>

definition loadClient :: "env \<Rightarrow> ConnectCmd \<Rightarrow> error + ConnectCmd" where
  "loadClient E cmd =
     (case ClientConfig E of
        Some err \<Rightarrow> Inl (Wrap err ''load kube config'')
      | None \<Rightarrow>
          (case NewForConfig E of
             Some err \<Rightarrow> Inl (Wrap err ''create kube client'')
           | None \<Rightarrow>
               if cmd_Namespace cmd = ''''
               then (case LoaderNamespace E of
                       Inl err \<Rightarrow> Inl err
                     | Inr ns \<Rightarrow> Inr (cmd\<lparr>cmd_Namespace := ns\<rparr>))
               else Inr cmd))"

subsection \<open>Finding the pod (lines 122 to 149)\<close>

text \<open>
  The closure of line 124. It captures \<open>podName\<close>. Indexing \<open>pods.Items[0]\<close> of an empty
  slice would panic; \<open>sort.Slice\<close> sorts in place, so this is only reached here when
  the \<open>SortSlice\<close> of the environment drops elements.
\<close>

definition newest :: "Pod \<Rightarrow> Pod \<Rightarrow> bool" where
  "newest a b = (CreationTimestamp a > CreationTimestamp b)"

definition findPodCond :: "env \<Rightarrow> string \<Rightarrow> string \<Rightarrow> (string \<times> event list) ConditionFunc" where
  "findPodCond E namespace vclusterName i s =
     (case s of (podName, w) \<Rightarrow>
        (let w1 = w @ [ListPods namespace (''app=vcluster,release='' @ vclusterName)] in
         case PodsList E i of
           Inl err \<Rightarrow> ((False, Some err), (podName, w1))
         | Inr items \<Rightarrow>
             if length items = 0 then ((False, None), (podName, w1))
             else (case SortSlice E newest items of
                     [] \<Rightarrow> ((False, Some (Other ''index out of range'')), (podName, w1))
                   | p # ps \<Rightarrow>
                       if DeletionTimestamp p \<noteq> None then ((False, None), (podName, w1))
                       else ((True, None), (Name p, w1)))))"

definition findPod :: "env \<Rightarrow> ConnectCmd \<Rightarrow> string \<Rightarrow> event list \<Rightarrow> (error + string) \<times> event list" where
  "findPod E cmd vclusterName w =
     (if cmd_PodName cmd = ''''
      then (case PollImmediate (ticks E 1 10) (findPodCond E (cmd_Namespace cmd) vclusterName)
                   (cmd_PodName cmd, w) of
              (Some err, (podName, w')) \<Rightarrow> (Inl (Wrap err ''finding vcluster pod''), w')
            | (None, (podName, w')) \<Rightarrow> (Inr podName, w'))
      else (Inr (cmd_PodName cmd), w))"

subsection \<open>\<open>GetKubeConfig\<close> (lines 306 to 338)\<close>

text \<open>The closure of line 310. It captures \<open>kubeConfig\<close> and \<open>printedWaiting\<close>.\<close>

definition getKubeConfigCond ::
  "env \<Rightarrow> string \<Rightarrow> string \<Rightarrow> string \<Rightarrow> (Config option \<times> bool \<times> event list) ConditionFunc" where
  "getKubeConfigCond E vclusterName podName namespace i s =
     (case s of (kubeConfig, printedWaiting, w) \<Rightarrow>
        (let w1 = w @ [ReadKubeConfig vclusterName namespace] in
         case ReadKubeConfigR E i of
           Inr c \<Rightarrow> ((True, None), (Some c, printedWaiting, w1))
         | Inl err \<Rightarrow>
             (let w2 = w1 @ [ExecBuffered namespace podName ''syncer'' [''cat'', ''/root/.kube/config'']] in
              case ExecBufferedR E i of
                Inl err2 \<Rightarrow>
                  if \<not> printedWaiting
                  then ((False, None), (None, True, w2 @ [Infof ''Waiting for vcluster to come up...'']))
                  else ((False, None), (None, printedWaiting, w2))
              | Inr stdout \<Rightarrow>
                  (case Load E stdout of
                     Inl err3 \<Rightarrow>
                       ((False, Some (Errorf (''failed to parse kube config: '' @ Error err3))),
                        (None, printedWaiting, w2))
                   | Inr c \<Rightarrow>
                       ((True, None),
                        (Some c, printedWaiting,
                         w2 @ [Infof ''Falling back to reading the kube config from the syncer pod.'']))))))"

text \<open>
  After a poll that ended with nil the captured \<open>kubeConfig\<close> was assigned by the attempt
  that ended it; a nil pointer there would be returned as it is, which the model reports
  as the error \<open>Other ''nil kube config''\<close>.
\<close>

definition GetKubeConfig ::
  "env \<Rightarrow> string \<Rightarrow> string \<Rightarrow> string \<Rightarrow> event list \<Rightarrow> (error + Config) \<times> event list" where
  "GetKubeConfig E vclusterName podName namespace w =
     (case PollImmediate (ticks E 2 600) (getKubeConfigCond E vclusterName podName namespace)
             (None, False, w) of
        (Some err, (kubeConfig, printedWaiting, w')) \<Rightarrow> (Inl (Wrap err ''wait for vcluster''), w')
      | (None, (Some c, printedWaiting, w')) \<Rightarrow> (Inr c, w')
      | (None, (None, printedWaiting, w')) \<Rightarrow> (Inl (Other ''nil kube config''), w'))"

subsection \<open>Waiting for a load balancer (lines 163 to 205)\<close>

text \<open>The closure of line 165. It captures \<open>printedWaiting\<close> and \<open>cmd\<close>.\<close>

definition exposedCond ::
  "env \<Rightarrow> string \<Rightarrow> (bool \<times> ConnectCmd \<times> event list) ConditionFunc" where
  "exposedCond E vclusterName i s =
     (case s of (printedWaiting, cmd, w) \<Rightarrow>
        (let w1 = w @ [GetService (cmd_Namespace cmd) vclusterName] in
         case ServicesGet E i of
           Inl err \<Rightarrow>
             if IsNotFound err then ((True, None), (printedWaiting, cmd, w1))
             else ((False, Some err), (printedWaiting, cmd, w1))
         | Inr service \<Rightarrow>
             if Type service \<noteq> ServiceTypeLoadBalancer then ((True, None), (printedWaiting, cmd, w1))
             else (case Ingress service of
                     [] \<Rightarrow>
                       if \<not> printedWaiting
                       then ((False, None), (True, cmd, w1 @ [Infof ''Waiting for vcluster LoadBalancer ip...'']))
                       else ((False, None), (printedWaiting, cmd, w1))
                   | ing # ings \<Rightarrow>
                       (let cmd' = (if Hostname ing \<noteq> '''' then cmd\<lparr>cmd_Server := Hostname ing\<rparr>
                                    else if IP ing \<noteq> '''' then cmd\<lparr>cmd_Server := IP ing\<rparr>
                                    else cmd) in
                        if cmd_Server cmd' = '''' then ((False, None), (printedWaiting, cmd', w1))
                        else ((True, None),
                              (printedWaiting, cmd',
                               w1 @ [Infof (''Using vcluster '' @ vclusterName @
                                            '' load balancer endpoint: '' @ cmd_Server cmd')]))))))"

definition waitForEndpoint ::
  "env \<Rightarrow> ConnectCmd \<Rightarrow> string \<Rightarrow> event list \<Rightarrow> (error + ConnectCmd) \<times> event list" where
  "waitForEndpoint E cmd vclusterName w =
     (if vclusterName \<noteq> '''' \<and> cmd_Server cmd = ''''
      then (case PollImmediate (ticks E 2 300) (exposedCond E vclusterName) (False, cmd, w) of
              (Some err, (printedWaiting, cmd', w')) \<Rightarrow> (Inl (Wrap err ''wait for vcluster''), w')
            | (None, (printedWaiting, cmd', w')) \<Rightarrow> (Inr cmd', w'))
      else (Inr cmd, w))"

subsection \<open>Rewriting the server address (lines 207 to 225)\<close>

text \<open>
  The loop over \<open>kubeConfig.Clusters\<close>. It carries \<open>cmd.Server\<close> and \<open>port\<close>, and returns
  them with the rewritten entries, or the error of line 218.
\<close>

fun rewriteClusters ::
  "string \<Rightarrow> int \<Rightarrow> string \<Rightarrow> (string \<times> Cluster) list \<Rightarrow> error + (string \<times> string \<times> (string \<times> Cluster) list)" where
  "rewriteClusters server localPort port [] = Inr (server, port, [])"
| "rewriteClusters server localPort port ((k, c) # rest) =
     (if server \<noteq> ''''
      then (let server' = (if \<not> HasPrefix server ''https://'' then ''https://'' @ server else server) in
            case rewriteClusters server' localPort port rest of
              Inl err \<Rightarrow> Inl err
            | Inr (server'', port', rest') \<Rightarrow> Inr (server'', port', (k, c\<lparr>Server := server'\<rparr>) # rest'))
      else (let splitted = Split (Server c) CHR '':'' in
            if length splitted \<noteq> 3
            then Inl (Errorf (''unexpected server in kubeconfig: '' @ Server c))
            else (let port1 = splitted ! 2;
                      splitted' = splitted[2 := Itoa localPort] in
                  case rewriteClusters server localPort port1 rest of
                    Inl err \<Rightarrow> Inl err
                  | Inr (server'', port', rest') \<Rightarrow>
                      Inr (server'', port', (k, c\<lparr>Server := Join splitted' '':''\<rparr>) # rest'))))"

subsection \<open>Handing the document off (lines 227 to 268)\<close>

text \<open>
  \<open>updateKubeConfig\<close> (lines 277 to 298) merges the entry into the ambient kube config
  through the loader; here it is the event of the call and the answer of the environment.
  The \<open>range\<close> loops of lines 235 and 240 keep the last entry they visit, or nil.
\<close>

definition lastValue :: "(string \<times> 'a) list \<Rightarrow> 'a option" where
  "lastValue xs = (case xs of [] \<Rightarrow> None | _ \<Rightarrow> Some (snd (last xs)))"

definition writeKubeConfig ::
  "env \<Rightarrow> ConnectCmd \<Rightarrow> string \<Rightarrow> Config \<Rightarrow> event list \<Rightarrow> error option \<times> event list" where
  "writeKubeConfig E cmd vclusterName kubeConfig w =
     (case Write E kubeConfig of
        Inl err \<Rightarrow> (Some err, w)
      | Inr out \<Rightarrow>
          if cmd_UpdateCurrent cmd
          then (let clusterConfig = lastValue (Clusters kubeConfig);
                    authConfig = lastValue (AuthInfos kubeConfig);
                    contextName = (if vclusterName \<noteq> ''''
                                   then ''vcluster_'' @ cmd_Namespace cmd @ ''_'' @ vclusterName
                                   else ''vcluster_'' @ cmd_Namespace cmd @ ''_'' @ cmd_PodName cmd);
                    w1 = w @ [UpdateKubeConfig contextName clusterConfig authConfig False] in
                case UpdateKubeConfigR E of
                  Some err \<Rightarrow> (Some err, w1)
                | None \<Rightarrow>
                    (None, w1 @ [Donef (''Successfully created kube context '' @ contextName @
                       ''. You can access the vcluster with `kubectl get namespaces --context '' @
                       contextName @ ''`'')]))
          else if cmd_Print cmd
          then (case StdoutWriteR E of
                  Some err \<Rightarrow> (Some err, w @ [StdoutWrite out])
                | None \<Rightarrow> (None, w @ [StdoutWrite out]))
          else (case WriteFileR E of
                  Some err \<Rightarrow> (Some (Wrap err ''write kube config''), w @ [WriteFile (cmd_KubeConfig cmd) out])
                | None \<Rightarrow>
                    (None, w @ [WriteFile (cmd_KubeConfig cmd) out,
                       Donef (''Virtual cluster kube config written to: '' @ cmd_KubeConfig cmd @
                         ''. You can access the cluster via `kubectl --kubeconfig '' @
                         cmd_KubeConfig cmd @ '' get namespaces`'')])))"

subsection \<open>\<open>Connect\<close> (lines 97 to 275)\<close>

definition Connect :: "env \<Rightarrow> ConnectCmd \<Rightarrow> string \<Rightarrow> result \<times> event list" where
  "Connect E cmd0 vclusterName =
     (case loadClient E cmd0 of
        Inl err \<Rightarrow> (Returns (Some err), [])
      | Inr cmd \<Rightarrow>
          if vclusterName = '''' \<and> cmd_PodName cmd = ''''
          then (Returns (Some (Errorf ''please specify either --pod or a name for the vcluster'')), [])
          else
            (case findPod E cmd vclusterName [] of
               (Inl err, w1) \<Rightarrow> (Returns (Some err), w1)
             | (Inr podName, w1) \<Rightarrow>
                 (case GetKubeConfig E vclusterName podName (cmd_Namespace cmd) w1 of
                    (Inl err, w2) \<Rightarrow> (Returns (Some (Wrap err ''failed to parse kube config'')), w2)
                  | (Inr kubeConfig, w2) \<Rightarrow>
                      if length (Clusters kubeConfig) \<noteq> 1
                      then (Returns (Some (Errorf ''unexpected kube config'')), w2)
                      else
                        (case waitForEndpoint E cmd vclusterName w2 of
                           (Inl err, w3) \<Rightarrow> (Returns (Some err), w3)
                         | (Inr cmd1, w3) \<Rightarrow>
                             (case rewriteClusters (cmd_Server cmd1) (cmd_LocalPort cmd1) '''' (Clusters kubeConfig) of
                                Inl err \<Rightarrow> (Returns (Some err), w3)
                              | Inr (server, port, clusters) \<Rightarrow>
                                  (let cmd2 = cmd1\<lparr>cmd_Server := server\<rparr>;
                                       kubeConfig' = kubeConfig\<lparr>Clusters := clusters\<rparr> in
                                   case writeKubeConfig E cmd2 vclusterName kubeConfig' w3 of
                                     (Some err, w4) \<Rightarrow> (Returns (Some err), w4)
                                   | (None, w4) \<Rightarrow>
                                       if cmd_Server cmd2 \<noteq> '''' then (Returns None, w4)
                                       else (StartPortForwarding E,
                                             w4 @ [StartPortForwardingWithRestart (cmd_Address cmd2) podName
                                                     (cmd_Namespace cmd2) (Itoa (cmd_LocalPort cmd2)) port])))))))"

section \<open>Kinds of events\<close>

fun isServiceQuery :: "event \<Rightarrow> bool" where
  "isServiceQuery (GetService ns n) = True"
| "isServiceQuery e = False"

fun isTunnel :: "event \<Rightarrow> bool" where
  "isTunnel (StartPortForwardingWithRestart a p ns lp rp) = True"
| "isTunnel e = False"

fun isPodQuery :: "event \<Rightarrow> bool" where
  "isPodQuery (ListPods ns sel) = True"
| "isPodQuery e = False"

fun isFetch :: "event \<Rightarrow> bool" where
  "isFetch (ReadKubeConfig v ns) = True"
| "isFetch (ExecBuffered ns p c args) = True"
| "isFetch (Infof m) = True"
| "isFetch e = False"

fun isDiscovery :: "event \<Rightarrow> bool" where
  "isDiscovery (GetService ns n) = True"
| "isDiscovery (Infof m) = True"
| "isDiscovery e = False"

fun isHandOff :: "event \<Rightarrow> bool" where
  "isHandOff (UpdateKubeConfig n c a b) = True"
| "isHandOff (Donef m) = True"
| "isHandOff (StdoutWrite out) = True"
| "isHandOff (WriteFile f out) = True"
| "isHandOff e = False"

text \<open>How often a message was logged with \<open>Infof\<close>.\<close>

definition notices :: "string \<Rightarrow> event list \<Rightarrow> nat" where
  "notices m w = length (filter (\<lambda>e. e = Infof m) w)"

definition fallbackNotice :: string where
  "fallbackNotice = ''Falling back to reading the kube config from the syncer pod.''"

definition waitingNotice :: string where
  "waitingNotice = ''Waiting for vcluster to come up...''"

section \<open>A concrete environment\<close>

text \<open>
  Insertion sort, which is what \<open>sort.Slice\<close> runs on a slice shorter than 12 elements:
  one admissible \<open>SortSlice\<close>.
\<close>

fun insertSorted :: "('a \<Rightarrow> 'a \<Rightarrow> bool) \<Rightarrow> 'a \<Rightarrow> 'a list \<Rightarrow> 'a list" where
  "insertSorted lt x [] = [x]"
| "insertSorted lt x (y # ys) = (if lt x y then x # y # ys else y # insertSorted lt x ys)"

definition insertionSort :: "('a \<Rightarrow> 'a \<Rightarrow> bool) \<Rightarrow> 'a list \<Rightarrow> 'a list" where
  "insertionSort lt xs = foldl (\<lambda>acc x. insertSorted lt x acc) [] xs"

definition demoCluster :: Cluster where
  "demoCluster = \<lparr>Server = ''https://10.0.0.5:6443'', CertificateAuthorityData = ''ca''\<rparr>"

definition demoConfig :: Config where
  "demoConfig = \<lparr>Clusters = [(''demo'', demoCluster)], AuthInfos = [(''demo'', ''token'')],
     Contexts = [(''demo'', \<lparr>ContextCluster = ''demo'', ContextAuthInfo = ''demo''\<rparr>)],
     CurrentContext = ''demo''\<rparr>"

definition demoCmd :: ConnectCmd where
  "demoCmd = \<lparr>cmd_Context = '''', cmd_Namespace = ''vc'', cmd_KubeConfig = ''./kubeconfig.yaml'',
     cmd_PodName = '''', cmd_UpdateCurrent = False, cmd_Print = False, cmd_LocalPort = 8443,
     cmd_Address = '''', cmd_Server = ''''\<rparr>"

definition demoPods :: "Pod list" where
  "demoPods = [\<lparr>Name = ''demo-0'', CreationTimestamp = 100, DeletionTimestamp = None\<rparr>,
               \<lparr>Name = ''demo-1'', CreationTimestamp = 200, DeletionTimestamp = None\<rparr>]"

definition demoWrite :: "Config \<Rightarrow> error + string" where
  "demoWrite c = Inr (Join (map (\<lambda>kc. fst kc @ ''='' @ Server (snd kc)) (Clusters c)) '','')"

text \<open>
  The instance \<open>demo\<close> in namespace \<open>vc\<close>: two pods, the secret is there, the in-container
  command fails, no service resource, and a tunnel that blocks.
\<close>

definition demoEnv :: env where
  "demoEnv = \<lparr>ClientConfig = None, NewForConfig = None, LoaderNamespace = Inr ''default'',
     ticks = (\<lambda>interval timeout. timeout div interval),
     PodsList = (\<lambda>i. Inr demoPods),
     SortSlice = insertionSort,
     ReadKubeConfigR = (\<lambda>i. Inr demoConfig),
     ExecBufferedR = (\<lambda>i. Inl (Other ''container not found'')),
     Load = (\<lambda>out. if out = ''kubeconfig'' then Inr demoConfig else Inl (Other ''yaml: invalid'')),
     ServicesGet = (\<lambda>i. Inl (NotFound ''services demo not found'')),
     Write = demoWrite,
     UpdateKubeConfigR = None, StdoutWriteR = None, WriteFileR = None,
     StartPortForwarding = Blocks\<rparr>"

text \<open>
  Variations of it: a secret with two cluster entries, a newest pod that is terminating,
  a fallback that succeeds on the third attempt, a command output that does not parse,
  an instance that never comes up, no pods, a load balancer without address, an explicit
  server address, and a pod name in place of the name of the vcluster.
\<close>

definition twoClusterConfig :: Config where
  "twoClusterConfig = demoConfig\<lparr>Clusters := [(''demo'', demoCluster), (''other'', demoCluster)]\<rparr>"

definition twoClusterEnv :: env where
  "twoClusterEnv = demoEnv\<lparr>ReadKubeConfigR := (\<lambda>i. Inr twoClusterConfig)\<rparr>"

definition terminatingPods :: "Pod list" where
  "terminatingPods = [\<lparr>Name = ''demo-0'', CreationTimestamp = 100, DeletionTimestamp = None\<rparr>,
                      \<lparr>Name = ''demo-1'', CreationTimestamp = 200, DeletionTimestamp = Some 250\<rparr>]"

definition fallbackEnv :: env where
  "fallbackEnv = demoEnv\<lparr>ReadKubeConfigR := (\<lambda>i. Inl (Other ''secret not found'')),
     ExecBufferedR := (\<lambda>i. if i < 2 then Inl (Other ''container not found'') else Inr ''kubeconfig'')\<rparr>"

definition garbageEnv :: env where
  "garbageEnv = demoEnv\<lparr>ReadKubeConfigR := (\<lambda>i. if i = 0 then Inl (Other ''secret not found'') else Inr demoConfig),
     ExecBufferedR := (\<lambda>i. Inr ''garbage'')\<rparr>"

definition notReadyEnv :: env where
  "notReadyEnv = demoEnv\<lparr>ReadKubeConfigR := (\<lambda>i. Inl (Other ''secret not found'')),
     ExecBufferedR := (\<lambda>i. Inl (Other ''container not found''))\<rparr>"

definition noPodsEnv :: env where
  "noPodsEnv = demoEnv\<lparr>PodsList := (\<lambda>i. Inr [])\<rparr>"

definition pendingEnv :: env where
  "pendingEnv = demoEnv\<lparr>ServicesGet := (\<lambda>i. Inr \<lparr>Type = ''LoadBalancer'', Ingress = []\<rparr>)\<rparr>"

text \<open>The event of the in-container command of line 314.\<close>

definition syncerExec :: "string \<Rightarrow> string \<Rightarrow> event" where
  "syncerExec namespace podName = ExecBuffered namespace podName ''syncer'' [''cat'', ''/root/.kube/config'']"

definition directCmd :: ConnectCmd where
  "directCmd = demoCmd\<lparr>cmd_Server := ''34.1.1.1''\<rparr>"

definition podCmd :: ConnectCmd where
  "podCmd = demoCmd\<lparr>cmd_PodName := ''demo-0''\<rparr>"

section \<open>Auxiliary lemmas\<close>

lemma PollImmediate_pollInternal: "PollImmediate k c s = pollInternal (Suc k) 0 c s"
  unfolding PollImmediate_def One_nat_def by simp

lemma pollInternal_emits:
  assumes step: "\<And>i s r s'. c i s = (r, s') \<Longrightarrow> \<exists>ws. tr s' = tr s @ ws \<and> (\<forall>e\<in>set ws. P e)"
  shows "pollInternal k i c s = (r, s') \<Longrightarrow> \<exists>ws. tr s' = tr s @ ws \<and> (\<forall>e\<in>set ws. P e)"
proof (induction k arbitrary: i s)
  case 0
  then show ?case by simp
next
  case (Suc k)
  obtain d e s1 where c1: "c i s = ((d, e), s1)" by (metis surj_pair)
  from step[OF c1] obtain ws1 where w1: "tr s1 = tr s @ ws1" "\<forall>e\<in>set ws1. P e" by blast
  show ?case
  proof (cases "e = None \<and> \<not> d")
    case True
    with Suc.prems c1 have "pollInternal k (Suc i) c s1 = (r, s')" by simp
    from Suc.IH[OF this] obtain ws2 where "tr s' = tr s1 @ ws2" "\<forall>e\<in>set ws2. P e" by blast
    with w1 have "tr s' = tr s @ (ws1 @ ws2) \<and> (\<forall>e\<in>set (ws1 @ ws2). P e)" by auto
    then show ?thesis by blast
  next
    case False
    with Suc.prems c1 have "s' = s1" by (auto split: option.splits bool.splits)
    with w1 show ?thesis by blast
  qed
qed

lemma pollInternal_timeout:
  assumes "\<And>j s. i \<le> j \<Longrightarrow> j < i + k \<Longrightarrow> fst (c j s) = (False, None)"
  shows "fst (pollInternal k i c s) = Some ErrWaitTimeout"
  using assms
proof (induction k arbitrary: i s)
  case 0
  then show ?case by simp
next
  case (Suc k)
  have "fst (c i s) = (False, None)" using Suc.prems[of i s] by simp
  then obtain s1 where c1: "c i s = ((False, None), s1)" by (metis prod.collapse)
  have "fst (pollInternal k (Suc i) c s1) = Some ErrWaitTimeout"
    by (rule Suc.IH) (use Suc.prems in auto)
  with c1 show ?case by simp
qed

lemma findPodCond_emits:
  "findPodCond E ns v i s = (r, s') \<Longrightarrow> \<exists>ws. snd s' = snd s @ ws \<and> (\<forall>e\<in>set ws. isPodQuery e)"
  by (cases s) (auto simp: findPodCond_def Let_def split: sum.splits list.splits if_splits)

lemma findPod_emits:
  assumes "findPod E cmd v w = (r, w')"
  shows "\<exists>ws. w' = w @ ws \<and> (\<forall>e\<in>set ws. isPodQuery e)"
proof (cases "cmd_PodName cmd = ''''")
  case True
  obtain e p w1 where p: "pollInternal (Suc (ticks E 1 10)) 0 (findPodCond E (cmd_Namespace cmd) v) (cmd_PodName cmd, w) = (e, (p, w1))"
    by (metis surj_pair)
  from pollInternal_emits[where tr = snd and P = isPodQuery, OF findPodCond_emits p]
  have "\<exists>ws. w1 = w @ ws \<and> (\<forall>e\<in>set ws. isPodQuery e)" by simp
  moreover have "w' = w1" using assms True p
    by (auto simp: findPod_def PollImmediate_pollInternal split: option.splits)
  ultimately show ?thesis by simp
next
  case False
  with assms show ?thesis by (simp add: findPod_def)
qed

lemma getKubeConfigCond_emits:
  "getKubeConfigCond E v p ns i s = (r, s') \<Longrightarrow>
     \<exists>ws. snd (snd s') = snd (snd s) @ ws \<and> (\<forall>e\<in>set ws. isFetch e)"
  by (cases s) (auto simp: getKubeConfigCond_def Let_def split: sum.splits if_splits)

lemma GetKubeConfig_emits:
  assumes "GetKubeConfig E v p ns w = (r, w')"
  shows "\<exists>ws. w' = w @ ws \<and> (\<forall>e\<in>set ws. isFetch e)"
proof -
  obtain e kc pw w1 where p: "pollInternal (Suc (ticks E 2 600)) 0 (getKubeConfigCond E v p ns) (None, False, w) = (e, (kc, pw, w1))"
    by (metis surj_pair)
  from pollInternal_emits[where tr = "\<lambda>s. snd (snd s)" and P = isFetch, OF getKubeConfigCond_emits p]
  have "\<exists>ws. w1 = w @ ws \<and> (\<forall>e\<in>set ws. isFetch e)" by simp
  moreover have "w' = w1" using assms p
    by (auto simp: GetKubeConfig_def PollImmediate_pollInternal split: option.splits)
  ultimately show ?thesis by simp
qed

lemma exposedCond_emits:
  "exposedCond E v i s = (r, s') \<Longrightarrow>
     \<exists>ws. snd (snd s') = snd (snd s) @ ws \<and> (\<forall>e\<in>set ws. isDiscovery e)"
  by (cases s) (auto simp: exposedCond_def Let_def split: sum.splits list.splits if_splits)

lemma waitForEndpoint_emits:
  assumes "waitForEndpoint E cmd v w = (r, w')"
  shows "\<exists>ws. w' = w @ ws \<and> (\<forall>e\<in>set ws. isDiscovery e)"
proof (cases "v \<noteq> '''' \<and> cmd_Server cmd = ''''")
  case True
  obtain e pw c1 w1 where p: "pollInternal (Suc (ticks E 2 300)) 0 (exposedCond E v) (False, cmd, w) = (e, (pw, c1, w1))"
    by (metis surj_pair)
  from pollInternal_emits[where tr = "\<lambda>s. snd (snd s)" and P = isDiscovery, OF exposedCond_emits p]
  have "\<exists>ws. w1 = w @ ws \<and> (\<forall>e\<in>set ws. isDiscovery e)" by simp
  moreover have "w' = w1" using assms True p
    by (auto simp: waitForEndpoint_def PollImmediate_pollInternal split: option.splits)
  ultimately show ?thesis by simp
next
  case False
  with assms show ?thesis by (auto simp: waitForEndpoint_def)
qed

lemma writeKubeConfig_emits:
  "writeKubeConfig E cmd v kc w = (r, w') \<Longrightarrow> \<exists>ws. w' = w @ ws \<and> (\<forall>e\<in>set ws. isHandOff e)"
  by (auto simp: writeKubeConfig_def Let_def split: sum.splits option.splits if_splits)

lemma isPodQuery_other: "isPodQuery e \<Longrightarrow> \<not> isServiceQuery e \<and> \<not> isTunnel e"
  by (cases e) auto

lemma isFetch_other: "isFetch e \<Longrightarrow> \<not> isServiceQuery e \<and> \<not> isTunnel e"
  by (cases e) auto

lemma isDiscovery_other: "isDiscovery e \<Longrightarrow> \<not> isTunnel e"
  by (cases e) auto

lemma isHandOff_other: "isHandOff e \<Longrightarrow> \<not> isServiceQuery e \<and> \<not> isTunnel e"
  by (cases e) auto

lemma demo_findPod:
  "findPod (demoEnv\<lparr>ReadKubeConfigR := r\<rparr>) demoCmd ''demo'' [] = (Inr ''demo-1'', [ListPods ''vc'' ''app=vcluster,release=demo''])"
  by (simp add: findPod_def PollImmediate_def findPodCond_def demoEnv_def demoCmd_def demoPods_def
      insertionSort_def newest_def)

lemma fetch_fallback_poll:
  assumes "\<forall>j. i \<le> j \<and> j \<le> i + m \<longrightarrow> (\<exists>e. ReadKubeConfigR E j = Inl e)"
    and "\<forall>j. i \<le> j \<and> j < i + m \<longrightarrow> (\<exists>e. ExecBufferedR E j = Inl e)"
    and "ExecBufferedR E (i + m) = Inr out" and "Load E out = Inr c"
    and "m < k"
  shows "\<exists>pw' w'. pollInternal k i (getKubeConfigCond E v p ns) (kc, pw, w) = (None, (Some c, pw', w'))
           \<and> notices fallbackNotice w' = notices fallbackNotice w + 1"
  using assms
proof (induction m arbitrary: i k kc pw w)
  case 0
  then obtain k' where k: "k = Suc k'" by (cases k) auto
  from 0 obtain e where "ReadKubeConfigR E i = Inl e" by auto
  with 0 k show ?case
    by (simp add: getKubeConfigCond_def Let_def notices_def fallbackNotice_def)
next
  case (Suc m)
  then obtain k' where k: "k = Suc k'" and mk: "m < k'" by (cases k) auto
  from Suc.prems obtain e where r: "ReadKubeConfigR E i = Inl e" by auto
  from Suc.prems obtain e2 where x: "ExecBufferedR E i = Inl e2" by auto
  define w1 where "w1 = w @ [ReadKubeConfig v ns, ExecBuffered ns p ''syncer'' [''cat'', ''/root/.kube/config'']]
                        @ (if pw then [] else [Infof waitingNotice])"
  have step: "getKubeConfigCond E v p ns i (kc, pw, w) = ((False, None), (None, True, w1))"
    using r x by (simp add: getKubeConfigCond_def Let_def w1_def waitingNotice_def)
  have n1: "notices fallbackNotice w1 = notices fallbackNotice w"
    by (simp add: w1_def notices_def fallbackNotice_def waitingNotice_def)
  have "\<exists>pw' w'. pollInternal k' (Suc i) (getKubeConfigCond E v p ns) (None, True, w1) = (None, (Some c, pw', w'))
           \<and> notices fallbackNotice w' = notices fallbackNotice w1 + 1"
  proof (rule Suc.IH[OF _ _ _ _ mk])
    show "\<forall>j. Suc i \<le> j \<and> j \<le> Suc i + m \<longrightarrow> (\<exists>e. ReadKubeConfigR E j = Inl e)"
      using Suc.prems(1) by auto
    show "\<forall>j. Suc i \<le> j \<and> j < Suc i + m \<longrightarrow> (\<exists>e. ExecBufferedR E j = Inl e)"
      using Suc.prems(2) by auto
    show "ExecBufferedR E (Suc i + m) = Inr out" using Suc.prems(3) by simp
    show "Load E out = Inr c" by (rule Suc.prems(4))
  qed
  with step n1 k show ?case by simp
qed

lemma pollInternal_invariant:
  assumes step: "\<And>i s r s'. I s \<Longrightarrow> c i s = (r, s') \<Longrightarrow> I s'"
  shows "I s \<Longrightarrow> pollInternal k i c s = (r, s') \<Longrightarrow> I s'"
proof (induction k arbitrary: i s)
  case 0
  then show ?case by simp
next
  case (Suc k)
  obtain d e s1 where c1: "c i s = ((d, e), s1)" by (metis surj_pair)
  from step[OF Suc.prems(1) c1] have i1: "I s1" .
  show ?case
  proof (cases "e = None \<and> \<not> d")
    case True
    with Suc.prems c1 have "pollInternal k (Suc i) c s1 = (r, s')" by simp
    from Suc.IH[OF i1 this] show ?thesis .
  next
    case False
    with Suc.prems c1 have "s' = s1" by (auto split: option.splits bool.splits)
    with i1 show ?thesis by simp
  qed
qed

lemma getKubeConfigCond_waiting:
  assumes "notices waitingNotice w \<le> n + (if pw then 1 else 0)"
    and "getKubeConfigCond E v p ns i (kc, pw, w) = (r, (kc', pw', w'))"
  shows "notices waitingNotice w' \<le> n + (if pw' then 1 else 0)"
  using assms
  by (auto simp: getKubeConfigCond_def Let_def notices_def waitingNotice_def
      split: sum.splits if_splits)

lemma GetKubeConfig_waiting_once:
  "notices waitingNotice (snd (GetKubeConfig E v p ns w)) \<le> notices waitingNotice w + 1"
proof -
  let ?I = "\<lambda>s. notices waitingNotice (snd (snd s)) \<le> notices waitingNotice w + (if fst (snd s) then 1 else 0)"
  obtain e kc pw w1 where p: "pollInternal (Suc (ticks E 2 600)) 0 (getKubeConfigCond E v p ns) (None, False, w) = (e, (kc, pw, w1))"
    by (metis surj_pair)
  have "?I (kc, pw, w1)"
  proof (rule pollInternal_invariant[where I = ?I, OF _ _ p])
    show "?I (None, False, w)" by simp
  next
    fix i s r s' assume a: "?I s" "getKubeConfigCond E v p ns i s = (r, s')"
    obtain kc0 pw0 w0 where s: "s = (kc0, pw0, w0)" by (metis surj_pair)
    obtain kc' pw' w' where s': "s' = (kc', pw', w')" by (metis surj_pair)
    from getKubeConfigCond_waiting[of w0 "notices waitingNotice w" pw0 E v p ns i kc0 r kc' pw' w'] a s s'
    show "?I s'" by simp
  qed
  then have "notices waitingNotice w1 \<le> notices waitingNotice w + 1" by (simp split: if_splits)
  moreover have "snd (GetKubeConfig E v p ns w) = w1"
    using p by (auto simp: GetKubeConfig_def PollImmediate_pollInternal split: option.splits)
  ultimately show ?thesis by simp
qed

lemma PollImmediate_timeout:
  assumes "\<And>j s. j \<le> k \<Longrightarrow> fst (c j s) = (False, None)"
  shows "fst (PollImmediate k c s) = Some ErrWaitTimeout"
  unfolding PollImmediate_pollInternal
  by (rule pollInternal_timeout) (use assms in auto)

lemma notReady_fetch_timeout:
  "fst (PollImmediate (ticks notReadyEnv 2 600) (getKubeConfigCond notReadyEnv v p ns) s) = Some ErrWaitTimeout"
proof (rule PollImmediate_timeout)
  fix j s
  show "fst (getKubeConfigCond notReadyEnv v p ns j s) = (False, None)"
    by (cases s) (simp add: getKubeConfigCond_def Let_def notReadyEnv_def demoEnv_def)
qed

lemma noPods_find_timeout:
  "fst (PollImmediate (ticks noPodsEnv 1 10) (findPodCond noPodsEnv ns v) s) = Some ErrWaitTimeout"
proof (rule PollImmediate_timeout)
  fix j s
  show "fst (findPodCond noPodsEnv ns v j s) = (False, None)"
    by (cases s) (simp add: findPodCond_def Let_def noPodsEnv_def demoEnv_def)
qed

lemma pending_discover_timeout:
  "fst (PollImmediate (ticks pendingEnv 2 300) (exposedCond pendingEnv v) s) = Some ErrWaitTimeout"
proof (rule PollImmediate_timeout)
  fix j s
  show "fst (exposedCond pendingEnv v j s) = (False, None)"
    by (cases s) (simp add: exposedCond_def Let_def pendingEnv_def demoEnv_def ServiceTypeLoadBalancer_def)
qed

lemma demo_loadClient:
  "loadClient (demoEnv\<lparr>PodsList := a\<rparr>) demoCmd = Inr demoCmd"
  "loadClient (demoEnv\<lparr>ReadKubeConfigR := b, ExecBufferedR := c\<rparr>) demoCmd = Inr demoCmd"
  "loadClient (demoEnv\<lparr>ServicesGet := d\<rparr>) demoCmd = Inr demoCmd"
  "loadClient demoEnv demoCmd = Inr demoCmd"
  by (simp_all add: loadClient_def demoEnv_def demoCmd_def)

lemma demo_findPod2:
  "findPod (demoEnv\<lparr>ReadKubeConfigR := b, ExecBufferedR := c\<rparr>) demoCmd ''demo'' [] = (Inr ''demo-1'', [ListPods ''vc'' ''app=vcluster,release=demo''])"
  "findPod (demoEnv\<lparr>ServicesGet := d\<rparr>) demoCmd ''demo'' [] = (Inr ''demo-1'', [ListPods ''vc'' ''app=vcluster,release=demo''])"
  "findPod demoEnv demoCmd ''demo'' [] = (Inr ''demo-1'', [ListPods ''vc'' ''app=vcluster,release=demo''])"
  by (simp_all add: findPod_def PollImmediate_def findPodCond_def Let_def demoEnv_def demoCmd_def demoPods_def
      insertionSort_def newest_def)

lemma demo_GetKubeConfig:
  "GetKubeConfig (demoEnv\<lparr>ServicesGet := d\<rparr>) ''demo'' ''demo-1'' ''vc'' w = (Inr demoConfig, w @ [ReadKubeConfig ''demo'' ''vc''])"
  "GetKubeConfig demoEnv ''demo'' ''demo-1'' ''vc'' w = (Inr demoConfig, w @ [ReadKubeConfig ''demo'' ''vc''])"
  by (simp_all add: GetKubeConfig_def PollImmediate_def getKubeConfigCond_def Let_def demoEnv_def)

lemma Split_not_Nil: "Split s c \<noteq> []"
  by (induction s) (auto split: list.splits)

lemma Join_Cons: "ws \<noteq> [] \<Longrightarrow> Join (w # ws) sep = w @ sep @ Join ws sep"
  by (cases ws) auto

lemma Join_Split: "Join (Split s c) [c] = s"
proof (induction s)
  case Nil
  then show ?case by simp
next
  case (Cons x xs)
  obtain w ws where sp: "Split xs c = w # ws"
    using Split_not_Nil[of xs c] by (cases "Split xs c") auto
  show ?case
  proof (cases "x = c")
    case True
    then show ?thesis using Cons by (simp add: Join_Cons Split_not_Nil)
  next
    case False
    have "Join ((x # w) # ws) [c] = x # Join (w # ws) [c]"
      by (cases ws) auto
    with False sp Cons show ?thesis by simp
  qed
qed

lemma loadClient_fields:
  "loadClient E cmd0 = Inr cmd \<Longrightarrow> cmd_PodName cmd = cmd_PodName cmd0 \<and> cmd_Server cmd = cmd_Server cmd0"
  by (auto simp: loadClient_def split: option.splits sum.splits if_splits)

lemma rewriteClusters_tunnel_server:
  "rewriteClusters [] lp port cs = Inr (s, p, cs') \<Longrightarrow> s = []"
proof (induction cs arbitrary: port p cs')
  case Nil
  then show ?case by simp
next
  case (Cons kc cs)
  obtain k c where kc: "kc = (k, c)" by (cases kc)
  from Cons.prems kc obtain p1 s1 rest where "rewriteClusters [] lp p1 cs = Inr (s1, p, rest)" "s = s1"
    by (auto simp: Let_def split: if_splits sum.splits)
  with Cons.IH show ?case by blast
qed

lemma Connect_tail:
  assumes "loadClient E cmd0 = Inr cmd"
    and "vclusterName \<noteq> '''' \<or> cmd_PodName cmd \<noteq> ''''"
    and "findPod E cmd vclusterName [] = (Inr podName, w1)"
    and "GetKubeConfig E vclusterName podName (cmd_Namespace cmd) w1 = (Inr kubeConfig, w2)"
    and "length (Clusters kubeConfig) = 1"
    and "waitForEndpoint E cmd vclusterName w2 = (Inr cmd1, w3)"
    and "rewriteClusters (cmd_Server cmd1) (cmd_LocalPort cmd1) '''' (Clusters kubeConfig) = Inr (server, port, clusters)"
    and "writeKubeConfig E (cmd1\<lparr>cmd_Server := server\<rparr>) vclusterName (kubeConfig\<lparr>Clusters := clusters\<rparr>) w3 = (r, w4)"
  shows "Connect E cmd0 vclusterName =
           (case r of
              Some err \<Rightarrow> (Returns (Some err), w4)
            | None \<Rightarrow>
                if server \<noteq> '''' then (Returns None, w4)
                else (StartPortForwarding E,
                      w4 @ [StartPortForwardingWithRestart (cmd_Address cmd1) podName (cmd_Namespace cmd1)
                              (Itoa (cmd_LocalPort cmd1)) port]))"
  using assms by (auto simp: Connect_def Let_def split: option.splits)

lemma natDigits_small: "n < 10 \<Longrightarrow> natDigits n = [digitChar n]"
  by (simp add: natDigits.simps)

lemma natDigits_step: "10 \<le> n \<Longrightarrow> natDigits n = natDigits (n div 10) @ [digitChar (n mod 10)]"
  by (subst natDigits.simps) simp

lemma Itoa_8443: "Itoa 8443 = ''8443''"
  by (simp add: Itoa_def natDigits_step natDigits_small digitChar_def)

lemma demo_waitForEndpoint:
  "waitForEndpoint demoEnv demoCmd ''demo'' w = (Inr demoCmd, w @ [GetService ''vc'' ''demo''])"
  by (simp add: waitForEndpoint_def PollImmediate_def exposedCond_def Let_def demoEnv_def demoCmd_def)

lemma demo_writeKubeConfig:
  "cmd_UpdateCurrent cmd = False \<Longrightarrow> cmd_Print cmd = False \<Longrightarrow>
   \<exists>w4. writeKubeConfig demoEnv cmd v kc w = (None, w4)"
  by (simp add: writeKubeConfig_def demoEnv_def demoWrite_def)

lemma pod_stages:
  "loadClient demoEnv podCmd = Inr podCmd"
  "findPod demoEnv podCmd '''' [] = (Inr ''demo-0'', [])"
  "GetKubeConfig demoEnv '''' ''demo-0'' ''vc'' [] = (Inr demoConfig, [ReadKubeConfig '''' ''vc''])"
  "waitForEndpoint demoEnv podCmd '''' w = (Inr podCmd, w)"
proof -
  show "loadClient demoEnv podCmd = Inr podCmd"
    by (simp add: loadClient_def demoEnv_def podCmd_def demoCmd_def)
  show "findPod demoEnv podCmd '''' [] = (Inr ''demo-0'', [])"
    by (simp add: findPod_def podCmd_def demoCmd_def)
  show "GetKubeConfig demoEnv '''' ''demo-0'' ''vc'' [] = (Inr demoConfig, [ReadKubeConfig '''' ''vc''])"
    by (simp add: GetKubeConfig_def PollImmediate_def getKubeConfigCond_def Let_def demoEnv_def)
  show "waitForEndpoint demoEnv podCmd '''' w = (Inr podCmd, w)"
    by (simp add: waitForEndpoint_def)
qed

lemma demo_rewrite_tunnel:
  "Split (Server demoCluster) CHR '':'' = [''https'', ''//10.0.0.5'', ''6443'']"
  by (simp add: demoCluster_def)

section \<open>The claims\<close>

subsection \<open>C2: a document without exactly one cluster entry\<close>

text \<open>
  Claim C2. When the fetched credential document has zero or more than one entry in
  \<open>clusters\<close>, \<open>Connect\<close> fails at once with the error \<open>unexpected kube config\<close>: nothing
  is retried (the trace is the one the fetch left), and the trace holds no service query
  and no tunnel start.
\<close>

theorem C2_not_one_cluster_fails:
  assumes "loadClient E cmd0 = Inr cmd"
    and "vclusterName \<noteq> '''' \<or> cmd_PodName cmd \<noteq> ''''"
    and "findPod E cmd vclusterName [] = (Inr podName, w1)"
    and "GetKubeConfig E vclusterName podName (cmd_Namespace cmd) w1 = (Inr kubeConfig, w2)"
    and "length (Clusters kubeConfig) \<noteq> 1"
  shows "Connect E cmd0 vclusterName = (Returns (Some (Errorf ''unexpected kube config'')), w2)
         \<and> (\<forall>e\<in>set w2. \<not> isServiceQuery e \<and> \<not> isTunnel e)"
proof
  show "Connect E cmd0 vclusterName = (Returns (Some (Errorf ''unexpected kube config'')), w2)"
    using assms by (auto simp: Connect_def)
  from findPod_emits[OF assms(3)] have a: "\<forall>e\<in>set w1. isPodQuery e" by simp
  from GetKubeConfig_emits[OF assms(4)] obtain ws where "w2 = w1 @ ws" "\<forall>e\<in>set ws. isFetch e" by blast
  with a show "\<forall>e\<in>set w2. \<not> isServiceQuery e \<and> \<not> isTunnel e"
    using isPodQuery_other isFetch_other by auto
qed

theorem C2_not_one_cluster_fails_witness:
  "loadClient twoClusterEnv demoCmd = Inr demoCmd
   \<and> length (Clusters twoClusterConfig) \<noteq> 1
   \<and> Connect twoClusterEnv demoCmd ''demo'' =
       (Returns (Some (Errorf ''unexpected kube config'')),
        [ListPods ''vc'' ''app=vcluster,release=demo'', ReadKubeConfig ''demo'' ''vc''])
   \<and> \<not> (\<exists>e\<in>set [ListPods ''vc'' ''app=vcluster,release=demo'', ReadKubeConfig ''demo'' ''vc''].
         isServiceQuery e \<or> isTunnel e)"
proof -
  have l: "loadClient twoClusterEnv demoCmd = Inr demoCmd"
    by (simp add: loadClient_def twoClusterEnv_def demoEnv_def demoCmd_def)
  have f: "findPod twoClusterEnv demoCmd ''demo'' [] = (Inr ''demo-1'', [ListPods ''vc'' ''app=vcluster,release=demo''])"
    unfolding twoClusterEnv_def by (rule demo_findPod)
  have g: "GetKubeConfig twoClusterEnv ''demo'' ''demo-1'' (cmd_Namespace demoCmd) [ListPods ''vc'' ''app=vcluster,release=demo'']
     = (Inr twoClusterConfig, [ListPods ''vc'' ''app=vcluster,release=demo'', ReadKubeConfig ''demo'' ''vc''])"
    by (simp add: GetKubeConfig_def PollImmediate_def getKubeConfigCond_def twoClusterEnv_def demoEnv_def demoCmd_def)
  have n: "length (Clusters twoClusterConfig) \<noteq> 1"
    by (simp add: twoClusterConfig_def)
  from C2_not_one_cluster_fails[OF l _ f g n] l n show ?thesis by simp
qed

subsection \<open>C9: neither an instance name nor a pod name\<close>

text \<open>
  Claim C9. When the caller gives neither a name for the vcluster nor a pod name,
  \<open>Connect\<close> returns an error and its trace is empty: no pod query, no credential
  fetch, no service query, no hand-off and no tunnel.
\<close>

theorem C9_no_name_fails:
  assumes "vclusterName = ''''" and "cmd_PodName cmd0 = ''''"
  shows "\<exists>err. Connect E cmd0 vclusterName = (Returns (Some err), [])"
proof (cases "loadClient E cmd0")
  case (Inl e)
  then show ?thesis by (simp add: Connect_def)
next
  case (Inr cmd)
  then have "cmd_PodName cmd = ''''"
    using assms by (auto simp: loadClient_def split: option.splits sum.splits if_splits)
  then show ?thesis using Inr assms by (simp add: Connect_def)
qed

theorem C9_no_name_fails_witness:
  "cmd_PodName demoCmd = '''' \<and> (\<exists>err. Connect demoEnv demoCmd '''' = (Returns (Some err), []))"
  using C9_no_name_fails[of "''''" demoCmd demoEnv] by (simp add: demoCmd_def)

subsection \<open>C5: no public endpoint on the first poll\<close>

text \<open>
  Claim C5. When the first fetch of the service resource reports not-found, or returns a
  service whose type is not \<open>LoadBalancer\<close>, the discovery ends with nil after that one
  query, whatever the number of ticks: the command is unchanged, so its server address
  is still empty (no public endpoint).
\<close>

theorem C5_no_endpoint_first_poll:
  assumes "vclusterName \<noteq> ''''" and "cmd_Server cmd = ''''"
    and "(\<exists>err. ServicesGet E 0 = Inl err \<and> IsNotFound err)
         \<or> (\<exists>service. ServicesGet E 0 = Inr service \<and> Type service \<noteq> ServiceTypeLoadBalancer)"
  shows "waitForEndpoint E cmd vclusterName w = (Inr cmd, w @ [GetService (cmd_Namespace cmd) vclusterName])"
  using assms by (auto simp: waitForEndpoint_def PollImmediate_def exposedCond_def)

theorem C5_no_endpoint_first_poll_witness:
  "waitForEndpoint demoEnv demoCmd ''demo'' [] = (Inr demoCmd, [GetService ''vc'' ''demo''])
   \<and> waitForEndpoint (demoEnv\<lparr>ServicesGet := (\<lambda>i. Inr \<lparr>Type = ''ClusterIP'', Ingress = []\<rparr>)\<rparr>) demoCmd ''demo'' []
       = (Inr demoCmd, [GetService ''vc'' ''demo''])"
  using C5_no_endpoint_first_poll[of "''demo''" demoCmd demoEnv "[]"]
    C5_no_endpoint_first_poll[of "''demo''" demoCmd "demoEnv\<lparr>ServicesGet := (\<lambda>i. Inr \<lparr>Type = ''ClusterIP'', Ingress = []\<rparr>)\<rparr>" "[]"]
  by (simp add: demoCmd_def demoEnv_def ServiceTypeLoadBalancer_def)

subsection \<open>C3: the newest candidate, never an older one\<close>

text \<open>
  Claim C3. In one poll of the resolver over a non-empty list of candidates, sorted by
  \<open>sort.Slice\<close> (a permutation in which no later element is newer than an earlier one):
  a pod that is chosen is a candidate without deletion timestamp whose creation time is
  the maximum over all candidates; and when every candidate of maximal creation time
  carries a deletion timestamp (in particular when the one newest candidate does, even
  if it is the only match), the poll chooses none: it reports not done, without error,
  and leaves the pod name as it was.
\<close>

theorem C3_newest_candidate:
  assumes "PodsList E i = Inr items" and "items \<noteq> []"
    and "mset (SortSlice E newest items) = mset items"
    and "sorted_wrt (\<lambda>a b. \<not> newest b a) (SortSlice E newest items)"
    and "findPodCond E ns v i (podName, w) = ((done, err), (podName', w'))"
  shows "(done \<longrightarrow> (\<exists>p\<in>set items. podName' = Name p \<and> DeletionTimestamp p = None
                      \<and> (\<forall>q\<in>set items. CreationTimestamp q \<le> CreationTimestamp p)))
       \<and> ((\<forall>p\<in>set items. (\<forall>q\<in>set items. CreationTimestamp q \<le> CreationTimestamp p)
                \<longrightarrow> DeletionTimestamp p \<noteq> None)
            \<longrightarrow> \<not> done \<and> err = None \<and> podName' = podName)"
proof -
  have s: "set (SortSlice E newest items) = set items"
    using assms(3) by (metis set_mset_mset)
  with assms(2) obtain p ps where ps: "SortSlice E newest items = p # ps"
    by (cases "SortSlice E newest items") auto
  have pin: "p \<in> set items" using s ps by auto
  have pmax: "\<forall>q\<in>set items. CreationTimestamp q \<le> CreationTimestamp p"
  proof
    fix q assume "q \<in> set items"
    then have "q = p \<or> q \<in> set ps" using s ps by auto
    then show "CreationTimestamp q \<le> CreationTimestamp p"
      using assms(4) ps by (auto simp: newest_def)
  qed
  have r: "((done, err), (podName', w')) =
      (if DeletionTimestamp p \<noteq> None
       then ((False, None), (podName, w @ [ListPods ns (''app=vcluster,release='' @ v)]))
       else ((True, None), (Name p, w @ [ListPods ns (''app=vcluster,release='' @ v)])))"
    using assms(1,2,5) ps by (auto simp: findPodCond_def Let_def split: if_splits)
  show ?thesis
  proof (cases "DeletionTimestamp p = None")
    case True
    with r have "done" "podName' = Name p" by simp_all
    with True pin pmax show ?thesis by blast
  next
    case False
    with r have "\<not> done" "err = None" "podName' = podName" by simp_all
    then show ?thesis by simp
  qed
qed

theorem C3_newest_candidate_witness:
  "PodsList demoEnv 0 = Inr demoPods
   \<and> mset (SortSlice demoEnv newest demoPods) = mset demoPods
   \<and> sorted_wrt (\<lambda>a b. \<not> newest b a) (SortSlice demoEnv newest demoPods)
   \<and> findPodCond demoEnv ''vc'' ''demo'' 0 ('''', [])
       = ((True, None), (''demo-1'', [ListPods ''vc'' ''app=vcluster,release=demo'']))
   \<and> (\<exists>p\<in>set demoPods. ''demo-1'' = Name p \<and> DeletionTimestamp p = None
          \<and> (\<forall>q\<in>set demoPods. CreationTimestamp q \<le> CreationTimestamp p))
   \<and> \<not> (\<exists>p\<in>set terminatingPods. (\<forall>q\<in>set terminatingPods. CreationTimestamp q \<le> CreationTimestamp p)
          \<and> DeletionTimestamp p = None)
   \<and> fst (findPodCond (demoEnv\<lparr>PodsList := (\<lambda>i. Inr terminatingPods)\<rparr>) ''vc'' ''demo'' 0 ('''', []))
       = (False, None)"
proof -
  let ?w = "[ListPods ''vc'' ''app=vcluster,release=demo'']"
  let ?T = "demoEnv\<lparr>PodsList := (\<lambda>i. Inr terminatingPods)\<rparr>"
  have h1: "PodsList demoEnv 0 = Inr demoPods" "demoPods \<noteq> []"
    by (simp_all add: demoEnv_def demoPods_def)
  have h2: "mset (SortSlice demoEnv newest demoPods) = mset demoPods"
    by (simp add: demoEnv_def demoPods_def insertionSort_def newest_def)
  have h3: "sorted_wrt (\<lambda>a b. \<not> newest b a) (SortSlice demoEnv newest demoPods)"
    by (simp add: demoEnv_def demoPods_def insertionSort_def newest_def)
  have a: "findPodCond demoEnv ''vc'' ''demo'' 0 ('''', []) = ((True, None), (''demo-1'', ?w))"
    by (simp add: findPodCond_def Let_def demoEnv_def demoPods_def insertionSort_def newest_def)
  have t1: "PodsList ?T 0 = Inr terminatingPods" "terminatingPods \<noteq> []"
    by (simp_all add: terminatingPods_def)
  have t2: "mset (SortSlice ?T newest terminatingPods) = mset terminatingPods"
    by (simp add: demoEnv_def terminatingPods_def insertionSort_def newest_def)
  have t3: "sorted_wrt (\<lambda>a b. \<not> newest b a) (SortSlice ?T newest terminatingPods)"
    by (simp add: demoEnv_def terminatingPods_def insertionSort_def newest_def)
  have t4: "\<forall>p\<in>set terminatingPods. (\<forall>q\<in>set terminatingPods. CreationTimestamp q \<le> CreationTimestamp p)
              \<longrightarrow> DeletionTimestamp p \<noteq> None"
    by (simp add: terminatingPods_def)
  obtain d e n w where b: "findPodCond ?T ''vc'' ''demo'' 0 ('''', []) = ((d, e), (n, w))"
    by (metis surj_pair)
  from C3_newest_candidate[OF h1 h2 h3 a]
  have c1: "\<exists>p\<in>set demoPods. ''demo-1'' = Name p \<and> DeletionTimestamp p = None
          \<and> (\<forall>q\<in>set demoPods. CreationTimestamp q \<le> CreationTimestamp p)" by simp
  from C3_newest_candidate[OF t1 t2 t3 b] t4 have "\<not> d \<and> e = None" by blast
  with b have c2: "fst (findPodCond ?T ''vc'' ''demo'' 0 ('''', [])) = (False, None)" by simp
  from t4 have c3: "\<not> (\<exists>p\<in>set terminatingPods. (\<forall>q\<in>set terminatingPods. CreationTimestamp q \<le> CreationTimestamp p)
          \<and> DeletionTimestamp p = None)" by blast
  from h1 h2 h3 a c1 c2 c3 show ?thesis by blast
qed

subsection \<open>C4: the fallback succeeds on a later attempt\<close>

text \<open>
  Claim C4. When the secret read fails on every attempt up to attempt \<open>n\<close>, the
  in-container command fails on the attempts before \<open>n\<close> and succeeds on attempt \<open>n\<close>
  with an output that parses, and attempt \<open>n\<close> is within the deadline, then
  \<open>GetKubeConfig\<close> returns the parsed document and logs the fallback notice exactly once,
  whatever \<open>n\<close> is.
\<close>

theorem C4_fallback_notice_once:
  assumes "\<forall>i\<le>n. \<exists>e. ReadKubeConfigR E i = Inl e"
    and "\<forall>i<n. \<exists>e. ExecBufferedR E i = Inl e"
    and "ExecBufferedR E n = Inr out" and "Load E out = Inr c"
    and "n \<le> ticks E 2 600"
  shows "\<exists>w'. GetKubeConfig E v p ns w = (Inr c, w')
           \<and> notices fallbackNotice w' = notices fallbackNotice w + 1"
proof -
  have "\<exists>pw' w'. pollInternal (Suc (ticks E 2 600)) 0 (getKubeConfigCond E v p ns) (None, False, w)
            = (None, (Some c, pw', w'))
           \<and> notices fallbackNotice w' = notices fallbackNotice w + 1"
    by (rule fetch_fallback_poll[where m = n and out = out]) (use assms in auto)
  then show ?thesis
    by (auto simp: GetKubeConfig_def PollImmediate_pollInternal)
qed

theorem C4_fallback_notice_once_witness:
  "ExecBufferedR fallbackEnv 2 = Inr ''kubeconfig'' \<and> Load fallbackEnv ''kubeconfig'' = Inr demoConfig
   \<and> (\<exists>w'. GetKubeConfig fallbackEnv ''demo'' ''demo-1'' ''vc'' [] = (Inr demoConfig, w')
           \<and> notices fallbackNotice w' = notices fallbackNotice [] + 1)"
  using C4_fallback_notice_once[of 2 fallbackEnv "''kubeconfig''" demoConfig "''demo''" "''demo-1''" "''vc''" "[]"]
  by (simp add: fallbackEnv_def demoEnv_def)

subsection \<open>C7: both retrieval strategies fail\<close>

text \<open>
  Claim C7, as amended. In an attempt in which the secret read fails and the
  in-container command itself fails, the poll goes on to the next attempt, and the
  waiting notice is logged only if it was not logged before; in an attempt in which the
  secret read fails and the command succeeds with an output that does not parse, the
  poll ends at once with the error \<open>failed to parse kube config\<close>; a whole call of
  \<open>GetKubeConfig\<close> logs the waiting notice at most once.
\<close>

theorem C7_both_fail_continues:
  assumes "ReadKubeConfigR E i = Inl e1"
  shows "(ExecBufferedR E i = Inl e2 \<longrightarrow>
            pollInternal (Suc k) i (getKubeConfigCond E v p ns) (kc, pw, w)
            = pollInternal k (Suc i) (getKubeConfigCond E v p ns)
                (None, True, w @ [ReadKubeConfig v ns, syncerExec ns p] @ (if pw then [] else [Infof waitingNotice])))
       \<and> (ExecBufferedR E i = Inr out \<and> Load E out = Inl e3 \<longrightarrow>
            pollInternal (Suc k) i (getKubeConfigCond E v p ns) (kc, pw, w)
            = (Some (Errorf (''failed to parse kube config: '' @ Error e3)),
               (None, pw, w @ [ReadKubeConfig v ns, syncerExec ns p])))
       \<and> notices waitingNotice (snd (GetKubeConfig E v p ns w)) \<le> notices waitingNotice w + 1"
proof (intro conjI impI)
  assume "ExecBufferedR E i = Inl e2"
  with assms have "getKubeConfigCond E v p ns i (kc, pw, w) =
      ((False, None), (None, True, w @ [ReadKubeConfig v ns, syncerExec ns p] @ (if pw then [] else [Infof waitingNotice])))"
    by (simp add: getKubeConfigCond_def Let_def syncerExec_def waitingNotice_def)
  then show "pollInternal (Suc k) i (getKubeConfigCond E v p ns) (kc, pw, w)
            = pollInternal k (Suc i) (getKubeConfigCond E v p ns)
                (None, True, w @ [ReadKubeConfig v ns, syncerExec ns p] @ (if pw then [] else [Infof waitingNotice]))"
    by simp
next
  assume "ExecBufferedR E i = Inr out \<and> Load E out = Inl e3"
  with assms have "getKubeConfigCond E v p ns i (kc, pw, w) =
      ((False, Some (Errorf (''failed to parse kube config: '' @ Error e3))),
       (None, pw, w @ [ReadKubeConfig v ns, syncerExec ns p]))"
    by (simp add: getKubeConfigCond_def Let_def syncerExec_def)
  then show "pollInternal (Suc k) i (getKubeConfigCond E v p ns) (kc, pw, w)
            = (Some (Errorf (''failed to parse kube config: '' @ Error e3)),
               (None, pw, w @ [ReadKubeConfig v ns, syncerExec ns p]))"
    by simp
next
  show "notices waitingNotice (snd (GetKubeConfig E v p ns w)) \<le> notices waitingNotice w + 1"
    by (rule GetKubeConfig_waiting_once)
qed

theorem C7_both_fail_continues_witness:
  "ReadKubeConfigR notReadyEnv 0 = Inl (Other ''secret not found'')
   \<and> ExecBufferedR notReadyEnv 0 = Inl (Other ''container not found'')
   \<and> pollInternal (Suc 300) 0 (getKubeConfigCond notReadyEnv ''demo'' ''demo-1'' ''vc'') (None, False, [])
       = pollInternal 300 (Suc 0) (getKubeConfigCond notReadyEnv ''demo'' ''demo-1'' ''vc'')
           (None, True, [ReadKubeConfig ''demo'' ''vc'', syncerExec ''vc'' ''demo-1'', Infof waitingNotice])
   \<and> ExecBufferedR garbageEnv 0 = Inr ''garbage'' \<and> Load garbageEnv ''garbage'' = Inl (Other ''yaml: invalid'')
   \<and> pollInternal (Suc 300) 0 (getKubeConfigCond garbageEnv ''demo'' ''demo-1'' ''vc'') (None, False, [])
       = (Some (Errorf ''failed to parse kube config: yaml: invalid''),
          (None, False, [ReadKubeConfig ''demo'' ''vc'', syncerExec ''vc'' ''demo-1'']))"
  using C7_both_fail_continues[of notReadyEnv 0 "Other ''secret not found''" "Other ''container not found''" 300
           "''demo''" "''demo-1''" "''vc''" None False "[]"]
    C7_both_fail_continues[of garbageEnv 0 "Other ''secret not found''" _ 300
           "''demo''" "''demo-1''" "''vc''" None False "[]" "''garbage''" "Other ''yaml: invalid''"]
  by (simp add: notReadyEnv_def garbageEnv_def demoEnv_def)

text \<open>
  The claim as stated fails: in \<open>garbageEnv\<close> both strategies fail on the first attempt
  (the secret is missing and the output of the command does not parse), 300 ticks are
  left and the secret would be there on the next attempt, yet the fetch ends after that
  one attempt with an error.
\<close>

theorem C7_both_fail_continues_counterexample:
  "ReadKubeConfigR garbageEnv 0 = Inl (Other ''secret not found'')
   \<and> ExecBufferedR garbageEnv 0 = Inr ''garbage''
   \<and> Load garbageEnv ''garbage'' = Inl (Other ''yaml: invalid'')
   \<and> ticks garbageEnv 2 600 = 300
   \<and> ReadKubeConfigR garbageEnv 1 = Inr demoConfig
   \<and> GetKubeConfig garbageEnv ''demo'' ''demo-1'' ''vc'' [] =
       (Inl (Wrap (Errorf ''failed to parse kube config: yaml: invalid'') ''wait for vcluster''),
        [ReadKubeConfig ''demo'' ''vc'', syncerExec ''vc'' ''demo-1''])"
  by (simp add: GetKubeConfig_def PollImmediate_def getKubeConfigCond_def Let_def garbageEnv_def
      demoEnv_def syncerExec_def)

subsection \<open>C8: a poll deadline elapses\<close>

text \<open>
  Claim C8, as amended. When the poll of a stage ends with the timeout error of
  \<open>wait.PollImmediate\<close>, \<open>Connect\<close> fails with that timeout error wrapped in the label of
  the stage: \<open>finding vcluster pod\<close> for the resolver, \<open>wait for vcluster\<close> inside
  \<open>failed to parse kube config\<close> for the fetch, and \<open>wait for vcluster\<close> alone for the
  endpoint discovery. The errors the attempts observed are not part of it.
\<close>

theorem C8_timeout_wraps_stage:
  "(loadClient E cmd0 = Inr cmd \<and> cmd_PodName cmd = '''' \<and> vclusterName \<noteq> ''''
      \<and> fst (PollImmediate (ticks E 1 10) (findPodCond E (cmd_Namespace cmd) vclusterName) ('''', []))
          = Some ErrWaitTimeout
     \<longrightarrow> fst (Connect E cmd0 vclusterName) = Returns (Some (Wrap ErrWaitTimeout ''finding vcluster pod'')))
   \<and> (loadClient E cmd0 = Inr cmd \<and> (vclusterName \<noteq> '''' \<or> cmd_PodName cmd \<noteq> '''')
      \<and> findPod E cmd vclusterName [] = (Inr podName, w1)
      \<and> fst (PollImmediate (ticks E 2 600) (getKubeConfigCond E vclusterName podName (cmd_Namespace cmd))
               (None, False, w1)) = Some ErrWaitTimeout
     \<longrightarrow> fst (Connect E cmd0 vclusterName)
           = Returns (Some (Wrap (Wrap ErrWaitTimeout ''wait for vcluster'') ''failed to parse kube config'')))
   \<and> (loadClient E cmd0 = Inr cmd \<and> vclusterName \<noteq> '''' \<and> cmd_Server cmd = ''''
      \<and> findPod E cmd vclusterName [] = (Inr podName, w1)
      \<and> GetKubeConfig E vclusterName podName (cmd_Namespace cmd) w1 = (Inr kubeConfig, w2)
      \<and> length (Clusters kubeConfig) = 1
      \<and> fst (PollImmediate (ticks E 2 300) (exposedCond E vclusterName) (False, cmd, w2)) = Some ErrWaitTimeout
     \<longrightarrow> fst (Connect E cmd0 vclusterName) = Returns (Some (Wrap ErrWaitTimeout ''wait for vcluster'')))"
proof (intro conjI impI)
  assume a: "loadClient E cmd0 = Inr cmd \<and> cmd_PodName cmd = '''' \<and> vclusterName \<noteq> ''''
      \<and> fst (PollImmediate (ticks E 1 10) (findPodCond E (cmd_Namespace cmd) vclusterName) ('''', []))
          = Some ErrWaitTimeout"
  then obtain s where "PollImmediate (ticks E 1 10) (findPodCond E (cmd_Namespace cmd) vclusterName) ('''', [])
          = (Some ErrWaitTimeout, s)" by (metis prod.collapse)
  with a have "fst (findPod E cmd vclusterName []) = Inl (Wrap ErrWaitTimeout ''finding vcluster pod'')"
    by (simp add: findPod_def split: prod.splits)
  then obtain w where "findPod E cmd vclusterName [] = (Inl (Wrap ErrWaitTimeout ''finding vcluster pod''), w)"
    by (metis prod.collapse)
  with a show "fst (Connect E cmd0 vclusterName) = Returns (Some (Wrap ErrWaitTimeout ''finding vcluster pod''))"
    by (simp add: Connect_def)
next
  assume a: "loadClient E cmd0 = Inr cmd \<and> (vclusterName \<noteq> '''' \<or> cmd_PodName cmd \<noteq> '''')
      \<and> findPod E cmd vclusterName [] = (Inr podName, w1)
      \<and> fst (PollImmediate (ticks E 2 600) (getKubeConfigCond E vclusterName podName (cmd_Namespace cmd))
               (None, False, w1)) = Some ErrWaitTimeout"
  then obtain s where "PollImmediate (ticks E 2 600) (getKubeConfigCond E vclusterName podName (cmd_Namespace cmd))
               (None, False, w1) = (Some ErrWaitTimeout, s)" by (metis prod.collapse)
  then have "fst (GetKubeConfig E vclusterName podName (cmd_Namespace cmd) w1) = Inl (Wrap ErrWaitTimeout ''wait for vcluster'')"
    by (simp add: GetKubeConfig_def split: prod.splits)
  then obtain w where "GetKubeConfig E vclusterName podName (cmd_Namespace cmd) w1 = (Inl (Wrap ErrWaitTimeout ''wait for vcluster''), w)"
    by (metis prod.collapse)
  with a show "fst (Connect E cmd0 vclusterName)
           = Returns (Some (Wrap (Wrap ErrWaitTimeout ''wait for vcluster'') ''failed to parse kube config''))"
    by (auto simp: Connect_def)
next
  assume a: "loadClient E cmd0 = Inr cmd \<and> vclusterName \<noteq> '''' \<and> cmd_Server cmd = ''''
      \<and> findPod E cmd vclusterName [] = (Inr podName, w1)
      \<and> GetKubeConfig E vclusterName podName (cmd_Namespace cmd) w1 = (Inr kubeConfig, w2)
      \<and> length (Clusters kubeConfig) = 1
      \<and> fst (PollImmediate (ticks E 2 300) (exposedCond E vclusterName) (False, cmd, w2)) = Some ErrWaitTimeout"
  then obtain s where "PollImmediate (ticks E 2 300) (exposedCond E vclusterName) (False, cmd, w2) = (Some ErrWaitTimeout, s)"
    by (metis prod.collapse)
  with a have "fst (waitForEndpoint E cmd vclusterName w2) = Inl (Wrap ErrWaitTimeout ''wait for vcluster'')"
    by (simp add: waitForEndpoint_def split: prod.splits)
  then obtain w where "waitForEndpoint E cmd vclusterName w2 = (Inl (Wrap ErrWaitTimeout ''wait for vcluster''), w)"
    by (metis prod.collapse)
  with a show "fst (Connect E cmd0 vclusterName) = Returns (Some (Wrap ErrWaitTimeout ''wait for vcluster''))"
    by (simp add: Connect_def)
qed

theorem C8_timeout_wraps_stage_witness:
  "fst (Connect noPodsEnv demoCmd ''demo'') = Returns (Some (Wrap ErrWaitTimeout ''finding vcluster pod''))
   \<and> fst (Connect notReadyEnv demoCmd ''demo'')
       = Returns (Some (Wrap (Wrap ErrWaitTimeout ''wait for vcluster'') ''failed to parse kube config''))
   \<and> fst (Connect pendingEnv demoCmd ''demo'') = Returns (Some (Wrap ErrWaitTimeout ''wait for vcluster''))"
proof (intro conjI)
  have "loadClient noPodsEnv demoCmd = Inr demoCmd" unfolding noPodsEnv_def by (rule demo_loadClient)
  moreover have "cmd_PodName demoCmd = ''''" "cmd_Namespace demoCmd = ''vc''" by (simp_all add: demoCmd_def)
  ultimately show "fst (Connect noPodsEnv demoCmd ''demo'') = Returns (Some (Wrap ErrWaitTimeout ''finding vcluster pod''))"
    using C8_timeout_wraps_stage[of noPodsEnv demoCmd demoCmd "''demo''"] noPods_find_timeout[of "''vc''" "''demo''" "('''', [])"]
    by simp
next
  have "loadClient notReadyEnv demoCmd = Inr demoCmd" unfolding notReadyEnv_def by (rule demo_loadClient)
  moreover have "findPod notReadyEnv demoCmd ''demo'' [] = (Inr ''demo-1'', [ListPods ''vc'' ''app=vcluster,release=demo''])"
    unfolding notReadyEnv_def by (rule demo_findPod2)
  moreover have "cmd_Namespace demoCmd = ''vc''" by (simp add: demoCmd_def)
  ultimately show "fst (Connect notReadyEnv demoCmd ''demo'')
       = Returns (Some (Wrap (Wrap ErrWaitTimeout ''wait for vcluster'') ''failed to parse kube config''))"
    using C8_timeout_wraps_stage[of notReadyEnv demoCmd demoCmd "''demo''" "''demo-1''" "[ListPods ''vc'' ''app=vcluster,release=demo'']"]
      notReady_fetch_timeout[of "''demo''" "''demo-1''" "''vc''" "(None, False, [ListPods ''vc'' ''app=vcluster,release=demo''])"]
    by simp
next
  have "loadClient pendingEnv demoCmd = Inr demoCmd" unfolding pendingEnv_def by (rule demo_loadClient)
  moreover have "findPod pendingEnv demoCmd ''demo'' [] = (Inr ''demo-1'', [ListPods ''vc'' ''app=vcluster,release=demo''])"
    unfolding pendingEnv_def by (rule demo_findPod2)
  moreover have "GetKubeConfig pendingEnv ''demo'' ''demo-1'' ''vc'' [ListPods ''vc'' ''app=vcluster,release=demo'']
      = (Inr demoConfig, [ListPods ''vc'' ''app=vcluster,release=demo''] @ [ReadKubeConfig ''demo'' ''vc''])"
    unfolding pendingEnv_def by (rule demo_GetKubeConfig)
  moreover have "cmd_Namespace demoCmd = ''vc''" "cmd_Server demoCmd = ''''" "length (Clusters demoConfig) = 1"
    by (simp_all add: demoCmd_def demoConfig_def)
  ultimately show "fst (Connect pendingEnv demoCmd ''demo'') = Returns (Some (Wrap ErrWaitTimeout ''wait for vcluster''))"
    using C8_timeout_wraps_stage[of pendingEnv demoCmd demoCmd "''demo''" "''demo-1''" "[ListPods ''vc'' ''app=vcluster,release=demo'']" demoConfig
             "[ListPods ''vc'' ''app=vcluster,release=demo''] @ [ReadKubeConfig ''demo'' ''vc'']"]
      pending_discover_timeout[of "''demo''" "(False, demoCmd, [ListPods ''vc'' ''app=vcluster,release=demo''] @ [ReadKubeConfig ''demo'' ''vc''])"]
    by simp
qed

text \<open>
  The claim as stated fails: in \<open>notReadyEnv\<close> every attempt of the fetch observes the
  errors of the secret read and of the command, and the error \<open>Connect\<close> returns after
  the deadline wraps neither of them.
\<close>

theorem C8_timeout_wraps_stage_counterexample:
  "ReadKubeConfigR notReadyEnv 300 = Inl (Other ''secret not found'')
   \<and> ExecBufferedR notReadyEnv 300 = Inl (Other ''container not found'')
   \<and> fst (Connect notReadyEnv demoCmd ''demo'')
       = Returns (Some (Wrap (Wrap ErrWaitTimeout ''wait for vcluster'') ''failed to parse kube config''))
   \<and> Other ''container not found'' \<notin> set (causes (Wrap (Wrap ErrWaitTimeout ''wait for vcluster'') ''failed to parse kube config''))
   \<and> Other ''secret not found'' \<notin> set (causes (Wrap (Wrap ErrWaitTimeout ''wait for vcluster'') ''failed to parse kube config''))"
proof -
  have l: "loadClient notReadyEnv demoCmd = Inr demoCmd" unfolding notReadyEnv_def by (rule demo_loadClient)
  have f: "findPod notReadyEnv demoCmd ''demo'' [] = (Inr ''demo-1'', [ListPods ''vc'' ''app=vcluster,release=demo''])"
    unfolding notReadyEnv_def by (rule demo_findPod2)
  have "fst (GetKubeConfig notReadyEnv ''demo'' ''demo-1'' ''vc'' [ListPods ''vc'' ''app=vcluster,release=demo''])
      = Inl (Wrap ErrWaitTimeout ''wait for vcluster'')"
    using notReady_fetch_timeout[of "''demo''" "''demo-1''" "''vc''" "(None, False, [ListPods ''vc'' ''app=vcluster,release=demo''])"]
    by (auto simp: GetKubeConfig_def split: prod.splits option.splits)
  then obtain w where g: "GetKubeConfig notReadyEnv ''demo'' ''demo-1'' ''vc'' [ListPods ''vc'' ''app=vcluster,release=demo'']
      = (Inl (Wrap ErrWaitTimeout ''wait for vcluster''), w)" by (metis prod.collapse)
  have n: "cmd_Namespace demoCmd = ''vc''" by (simp add: demoCmd_def)
  have "fst (Connect notReadyEnv demoCmd ''demo'')
       = Returns (Some (Wrap (Wrap ErrWaitTimeout ''wait for vcluster'') ''failed to parse kube config''))"
    using l f g n by (simp add: Connect_def)
  then show ?thesis by (simp add: notReadyEnv_def demoEnv_def)
qed

subsection \<open>C6: direct-endpoint mode\<close>

text \<open>
  Claim C6. When the server address of the command is not empty after the discovery
  (it was given or discovered), the rewriting puts \<open>https://\<close> in front of it unless it
  starts with it already, and makes it the server address of the one cluster entry; then
  \<open>Connect\<close> returns what the hand-off of the document returns, and its trace holds no
  start of a tunnel.
\<close>

theorem C6_direct_endpoint:
  assumes "loadClient E cmd0 = Inr cmd"
    and "vclusterName \<noteq> '''' \<or> cmd_PodName cmd \<noteq> ''''"
    and "findPod E cmd vclusterName [] = (Inr podName, w1)"
    and "GetKubeConfig E vclusterName podName (cmd_Namespace cmd) w1 = (Inr kubeConfig, w2)"
    and "Clusters kubeConfig = [(k, c)]"
    and "waitForEndpoint E cmd vclusterName w2 = (Inr cmd1, w3)"
    and "cmd_Server cmd1 \<noteq> ''''"
    and "server = (if HasPrefix (cmd_Server cmd1) ''https://'' then cmd_Server cmd1
                   else ''https://'' @ cmd_Server cmd1)"
    and "writeKubeConfig E (cmd1\<lparr>cmd_Server := server\<rparr>) vclusterName
           (kubeConfig\<lparr>Clusters := [(k, c\<lparr>Server := server\<rparr>)]\<rparr>) w3 = (r, w4)"
  shows "HasPrefix server ''https://''
       \<and> rewriteClusters (cmd_Server cmd1) (cmd_LocalPort cmd1) '''' (Clusters kubeConfig)
           = Inr (server, '''', [(k, c\<lparr>Server := server\<rparr>)])
       \<and> Connect E cmd0 vclusterName = (Returns r, w4)
       \<and> (\<forall>e\<in>set w4. \<not> isTunnel e)"
proof (intro conjI)
  show "HasPrefix server ''https://''"
    using assms(8) by (simp add: HasPrefix_def)
  show rw: "rewriteClusters (cmd_Server cmd1) (cmd_LocalPort cmd1) '''' (Clusters kubeConfig)
           = Inr (server, '''', [(k, c\<lparr>Server := server\<rparr>)])"
    using assms(5,7,8) by (simp add: Let_def)
  have s: "server \<noteq> ''''" using assms(7,8) by auto
  have "length (Clusters kubeConfig) = 1" using assms(5) by simp
  from Connect_tail[OF assms(1,2,3,4) this assms(6) rw assms(9)] s
  show "Connect E cmd0 vclusterName = (Returns r, w4)"
    by (simp split: option.splits)
  from findPod_emits[OF assms(3)] have a1: "\<forall>e\<in>set w1. isPodQuery e" by simp
  from GetKubeConfig_emits[OF assms(4)] obtain ws2 where a2: "w2 = w1 @ ws2" "\<forall>e\<in>set ws2. isFetch e" by blast
  from waitForEndpoint_emits[OF assms(6)] obtain ws3 where a3: "w3 = w2 @ ws3" "\<forall>e\<in>set ws3. isDiscovery e" by blast
  from writeKubeConfig_emits[OF assms(9)] obtain ws4 where a4: "w4 = w3 @ ws4" "\<forall>e\<in>set ws4. isHandOff e" by blast
  show "\<forall>e\<in>set w4. \<not> isTunnel e"
    using a1 a2 a3 a4 isPodQuery_other isFetch_other isDiscovery_other isHandOff_other by auto
qed

theorem C6_direct_endpoint_witness:
  "cmd_Server directCmd = ''34.1.1.1''
   \<and> rewriteClusters (cmd_Server directCmd) (cmd_LocalPort directCmd) '''' (Clusters demoConfig)
       = Inr (''https://34.1.1.1'', '''', [(''demo'', demoCluster\<lparr>Server := ''https://34.1.1.1''\<rparr>)])
   \<and> (\<exists>w. Connect demoEnv directCmd ''demo'' = (Returns None, w) \<and> \<not> (\<exists>e\<in>set w. isTunnel e))"
proof -
  let ?w1 = "[ListPods ''vc'' ''app=vcluster,release=demo'']"
  let ?w2 = "?w1 @ [ReadKubeConfig ''demo'' ''vc'']"
  let ?cfg = "demoConfig\<lparr>Clusters := [(''demo'', demoCluster\<lparr>Server := ''https://34.1.1.1''\<rparr>)]\<rparr>"
  have c: "cmd_Namespace directCmd = ''vc''" "cmd_Server directCmd = ''34.1.1.1''"
    "cmd_UpdateCurrent (directCmd\<lparr>cmd_Server := ''https://34.1.1.1''\<rparr>) = False"
    "cmd_Print (directCmd\<lparr>cmd_Server := ''https://34.1.1.1''\<rparr>) = False"
    by (simp_all add: directCmd_def demoCmd_def)
  have l: "loadClient demoEnv directCmd = Inr directCmd"
    by (simp add: loadClient_def demoEnv_def directCmd_def demoCmd_def)
  have f: "findPod demoEnv directCmd ''demo'' [] = (Inr ''demo-1'', ?w1)"
    using demo_findPod2(3) by (simp add: findPod_def directCmd_def demoCmd_def)
  have g: "GetKubeConfig demoEnv ''demo'' ''demo-1'' (cmd_Namespace directCmd) ?w1 = (Inr demoConfig, ?w2)"
    unfolding c by (rule demo_GetKubeConfig)
  have k: "Clusters demoConfig = [(''demo'', demoCluster)]" by (simp add: demoConfig_def)
  have d: "waitForEndpoint demoEnv directCmd ''demo'' ?w2 = (Inr directCmd, ?w2)"
    by (simp add: waitForEndpoint_def c)
  have ne: "cmd_Server directCmd \<noteq> ''''" by (simp add: c)
  have sv: "''https://34.1.1.1'' = (if HasPrefix (cmd_Server directCmd) ''https://'' then cmd_Server directCmd
                   else ''https://'' @ cmd_Server directCmd)"
    by (simp add: c HasPrefix_def)
  obtain w4 where h: "writeKubeConfig demoEnv (directCmd\<lparr>cmd_Server := ''https://34.1.1.1''\<rparr>) ''demo'' ?cfg ?w2 = (None, w4)"
    using demo_writeKubeConfig[OF c(3,4)] by blast
  from C6_direct_endpoint[OF l _ f g k d ne sv h]
  have "rewriteClusters (cmd_Server directCmd) (cmd_LocalPort directCmd) '''' (Clusters demoConfig)
       = Inr (''https://34.1.1.1'', '''', [(''demo'', demoCluster\<lparr>Server := ''https://34.1.1.1''\<rparr>)])"
    and "Connect demoEnv directCmd ''demo'' = (Returns None, w4)"
    and "\<not> (\<exists>e\<in>set w4. isTunnel e)"
    by simp_all
  with c(2) show ?thesis by blast
qed

subsection \<open>C1: tunnel mode\<close>

text \<open>
  Claim C1. When the server address of the command is empty after the discovery and the
  server address of the one cluster entry splits at its colons into exactly three
  segments, scheme, host and port, the rewritten address is the same scheme and host
  with the decimal local port in place of the port, and, once the document is handed
  off, \<open>Connect\<close> ends in the tunnel call with the local port and the port it took from
  the address as the remote port. The instance after it is the example of the claim:
  \<open>https://10.0.0.5:6443\<close> with local port 8443 gives \<open>https://10.0.0.5:8443\<close>.
\<close>

theorem C1_tunnel_rewrite:
  assumes "loadClient E cmd0 = Inr cmd"
    and "vclusterName \<noteq> '''' \<or> cmd_PodName cmd \<noteq> ''''"
    and "findPod E cmd vclusterName [] = (Inr podName, w1)"
    and "GetKubeConfig E vclusterName podName (cmd_Namespace cmd) w1 = (Inr kubeConfig, w2)"
    and "Clusters kubeConfig = [(k, c)]"
    and "waitForEndpoint E cmd vclusterName w2 = (Inr cmd1, w3)"
    and "cmd_Server cmd1 = ''''"
    and "Split (Server c) CHR '':'' = [scheme, host, remotePort]"
    and "server = scheme @ '':'' @ host @ '':'' @ Itoa (cmd_LocalPort cmd1)"
    and "writeKubeConfig E cmd1 vclusterName (kubeConfig\<lparr>Clusters := [(k, c\<lparr>Server := server\<rparr>)]\<rparr>) w3 = (None, w4)"
  shows "Server c = scheme @ '':'' @ host @ '':'' @ remotePort
       \<and> rewriteClusters (cmd_Server cmd1) (cmd_LocalPort cmd1) '''' (Clusters kubeConfig)
           = Inr ('''', remotePort, [(k, c\<lparr>Server := server\<rparr>)])
       \<and> Connect E cmd0 vclusterName =
           (StartPortForwarding E,
            w4 @ [StartPortForwardingWithRestart (cmd_Address cmd1) podName (cmd_Namespace cmd1)
                    (Itoa (cmd_LocalPort cmd1)) remotePort])"
proof (intro conjI)
  have "Join (Split (Server c) CHR '':'') '':'' = Server c" by (rule Join_Split)
  with assms(8) show "Server c = scheme @ '':'' @ host @ '':'' @ remotePort" by simp
  show rw: "rewriteClusters (cmd_Server cmd1) (cmd_LocalPort cmd1) '''' (Clusters kubeConfig)
           = Inr ('''', remotePort, [(k, c\<lparr>Server := server\<rparr>)])"
    using assms(5,7,8,9) by (simp add: Let_def)
  have u: "cmd1\<lparr>cmd_Server := ''''\<rparr> = cmd1" using assms(7) by simp
  have "length (Clusters kubeConfig) = 1" using assms(5) by simp
  from Connect_tail[OF assms(1,2,3,4) this assms(6) rw] assms(10) u
  show "Connect E cmd0 vclusterName =
           (StartPortForwarding E,
            w4 @ [StartPortForwardingWithRestart (cmd_Address cmd1) podName (cmd_Namespace cmd1)
                    (Itoa (cmd_LocalPort cmd1)) remotePort])"
    by simp
qed

theorem C1_tunnel_rewrite_witness:
  "Split (Server demoCluster) CHR '':'' = [''https'', ''//10.0.0.5'', ''6443'']
   \<and> cmd_LocalPort demoCmd = 8443
   \<and> rewriteClusters (cmd_Server demoCmd) (cmd_LocalPort demoCmd) '''' (Clusters demoConfig)
       = Inr ('''', ''6443'', [(''demo'', demoCluster\<lparr>Server := ''https://10.0.0.5:8443''\<rparr>)])
   \<and> (\<exists>w. Connect demoEnv demoCmd ''demo'' =
          (Blocks, w @ [StartPortForwardingWithRestart '''' ''demo-1'' ''vc'' ''8443'' ''6443'']))"
proof -
  let ?w1 = "[ListPods ''vc'' ''app=vcluster,release=demo'']"
  let ?cfg = "demoConfig\<lparr>Clusters := [(''demo'', demoCluster\<lparr>Server := ''https://10.0.0.5:8443''\<rparr>)]\<rparr>"
  have c: "cmd_Namespace demoCmd = ''vc''" "cmd_Server demoCmd = ''''" "cmd_LocalPort demoCmd = 8443"
    "cmd_Address demoCmd = ''''" "cmd_UpdateCurrent demoCmd = False" "cmd_Print demoCmd = False"
    by (simp_all add: demoCmd_def)
  have l: "loadClient demoEnv demoCmd = Inr demoCmd" by (rule demo_loadClient)
  have f: "findPod demoEnv demoCmd ''demo'' [] = (Inr ''demo-1'', ?w1)" by (rule demo_findPod2)
  have g: "GetKubeConfig demoEnv ''demo'' ''demo-1'' (cmd_Namespace demoCmd) ?w1
             = (Inr demoConfig, ?w1 @ [ReadKubeConfig ''demo'' ''vc''])"
    unfolding c by (rule demo_GetKubeConfig)
  have k: "Clusters demoConfig = [(''demo'', demoCluster)]" by (simp add: demoConfig_def)
  have d: "waitForEndpoint demoEnv demoCmd ''demo'' (?w1 @ [ReadKubeConfig ''demo'' ''vc''])
             = (Inr demoCmd, ?w1 @ [ReadKubeConfig ''demo'' ''vc''] @ [GetService ''vc'' ''demo''])"
    using demo_waitForEndpoint by simp
  have sp: "Split (Server demoCluster) CHR '':'' = [''https'', ''//10.0.0.5'', ''6443'']"
    by (rule demo_rewrite_tunnel)
  have sv: "''https://10.0.0.5:8443'' = ''https'' @ '':'' @ ''//10.0.0.5'' @ '':'' @ Itoa (cmd_LocalPort demoCmd)"
    by (simp add: c Itoa_8443)
  obtain w4 where h: "writeKubeConfig demoEnv demoCmd ''demo'' ?cfg
        (?w1 @ [ReadKubeConfig ''demo'' ''vc''] @ [GetService ''vc'' ''demo'']) = (None, w4)"
    using demo_writeKubeConfig[OF c(5,6)] by blast
  from C1_tunnel_rewrite[OF l _ f g k d c(2) sp sv h] c sp
  have "rewriteClusters (cmd_Server demoCmd) (cmd_LocalPort demoCmd) '''' (Clusters demoConfig)
       = Inr ('''', ''6443'', [(''demo'', demoCluster\<lparr>Server := ''https://10.0.0.5:8443''\<rparr>)])"
    and "Connect demoEnv demoCmd ''demo'' =
          (Blocks, w4 @ [StartPortForwardingWithRestart '''' ''demo-1'' ''vc'' ''8443'' ''6443''])"
    by (simp_all add: Itoa_8443 demoEnv_def)
  with sp c(3) show ?thesis by blast
qed

subsection \<open>C10: only a pod name\<close>

text \<open>
  Claim C10. When the caller gives a pod name and no name for the vcluster, the trace of
  \<open>Connect\<close> holds no query of the service resource; and when no server address was
  given either, a run either fails with an error before any tunnel is started or ends
  in the tunnel call: it never finishes in direct-endpoint mode.
\<close>

theorem C10_pod_only_skips_discovery:
  assumes "cmd_PodName cmd0 \<noteq> ''''"
  shows "(\<forall>e\<in>set (snd (Connect E cmd0 '''')). \<not> isServiceQuery e)
       \<and> (cmd_Server cmd0 = '''' \<longrightarrow>
            (\<exists>err w. Connect E cmd0 '''' = (Returns (Some err), w) \<and> (\<forall>e\<in>set w. \<not> isTunnel e))
            \<or> (\<exists>w a p n l r. Connect E cmd0 '''' =
                  (StartPortForwarding E, w @ [StartPortForwardingWithRestart a p n l r])))"
proof (cases "loadClient E cmd0")
  case (Inl err)
  then have "Connect E cmd0 '''' = (Returns (Some err), [])" by (simp add: Connect_def)
  then show ?thesis by simp
next
  case (Inr cmd)
  from loadClient_fields[OF Inr] assms
  have pn: "cmd_PodName cmd \<noteq> ''''" and sv: "cmd_Server cmd = cmd_Server cmd0" by simp_all
  have names: "'''' \<noteq> '''' \<or> cmd_PodName cmd \<noteq> ''''" using pn by simp
  have f: "findPod E cmd '''' [] = (Inr (cmd_PodName cmd), [])"
    using pn by (simp add: findPod_def)
  obtain r2 w2 where g: "GetKubeConfig E '''' (cmd_PodName cmd) (cmd_Namespace cmd) [] = (r2, w2)"
    by (metis surj_pair)
  from GetKubeConfig_emits[OF g] have e2: "\<forall>e\<in>set w2. isFetch e" by simp
  then have q2: "\<forall>e\<in>set w2. \<not> isServiceQuery e \<and> \<not> isTunnel e"
    using isFetch_other by blast
  show ?thesis
  proof (cases r2)
    case (Inl err)
    with Inr pn f g have "Connect E cmd0 '''' = (Returns (Some (Wrap err ''failed to parse kube config'')), w2)"
      by (simp add: Connect_def)
    with q2 show ?thesis by simp
  next
    case kc: (Inr kubeConfig)
    show ?thesis
    proof (cases "length (Clusters kubeConfig) = 1")
      case False
      with Inr pn f g kc have "Connect E cmd0 '''' = (Returns (Some (Errorf ''unexpected kube config'')), w2)"
        by (simp add: Connect_def)
      with q2 show ?thesis by simp
    next
      case one: True
      have d: "waitForEndpoint E cmd '''' w2 = (Inr cmd, w2)"
        by (simp add: waitForEndpoint_def)
      show ?thesis
      proof (cases "rewriteClusters (cmd_Server cmd) (cmd_LocalPort cmd) '''' (Clusters kubeConfig)")
        case (Inl err)
        with Inr pn f g kc one d have "Connect E cmd0 '''' = (Returns (Some err), w2)"
          by (simp add: Connect_def)
        with q2 show ?thesis by simp
      next
        case rw: (Inr res)
        obtain server port clusters where res: "res = (server, port, clusters)" by (metis surj_pair)
        obtain r4 w4 where h: "writeKubeConfig E (cmd\<lparr>cmd_Server := server\<rparr>) ''''
                                 (kubeConfig\<lparr>Clusters := clusters\<rparr>) w2 = (r4, w4)"
          by (metis surj_pair)
        from writeKubeConfig_emits[OF h] obtain ws4 where "w4 = w2 @ ws4" "\<forall>e\<in>set ws4. isHandOff e" by blast
        with q2 have q4: "\<forall>e\<in>set w4. \<not> isServiceQuery e \<and> \<not> isTunnel e"
          using isHandOff_other by auto
        have g': "GetKubeConfig E '''' (cmd_PodName cmd) (cmd_Namespace cmd) [] = (Inr kubeConfig, w2)"
          using g kc by simp
        have rw': "rewriteClusters (cmd_Server cmd) (cmd_LocalPort cmd) '''' (Clusters kubeConfig)
                     = Inr (server, port, clusters)" using rw res by simp
        note tail = Connect_tail[OF Inr names f g' one d rw' h]
        show ?thesis
        proof (cases r4)
          case (Some err)
          with tail have "Connect E cmd0 '''' = (Returns (Some err), w4)" by simp
          with q4 show ?thesis by simp
        next
          case None
          show ?thesis
          proof (cases "server = ''''")
            case True
            with tail None have c: "Connect E cmd0 '''' =
                (StartPortForwarding E,
                 w4 @ [StartPortForwardingWithRestart (cmd_Address cmd) (cmd_PodName cmd) (cmd_Namespace cmd)
                         (Itoa (cmd_LocalPort cmd)) port])" by simp
            then have "\<forall>e\<in>set (snd (Connect E cmd0 '''')). \<not> isServiceQuery e"
              using q4 by simp
            with c show ?thesis by blast
          next
            case False
            with tail None have c: "Connect E cmd0 '''' = (Returns None, w4)" by simp
            have "cmd_Server cmd0 \<noteq> ''''"
              using rewriteClusters_tunnel_server[of "cmd_LocalPort cmd" "''''" "Clusters kubeConfig" server port clusters]
                rw' sv False by auto
            with c q4 show ?thesis by simp
          qed
        qed
      qed
    qed
  qed
qed

theorem C10_pod_only_skips_discovery_witness:
  "cmd_PodName podCmd = ''demo-0'' \<and> cmd_Server podCmd = ''''
   \<and> \<not> (\<exists>e\<in>set (snd (Connect demoEnv podCmd '''')). isServiceQuery e)
   \<and> (\<exists>w. Connect demoEnv podCmd '''' =
          (Blocks, w @ [StartPortForwardingWithRestart '''' ''demo-0'' ''vc'' ''8443'' ''6443'']))"
proof -
  let ?w2 = "[ReadKubeConfig '''' ''vc'']"
  let ?cfg = "demoConfig\<lparr>Clusters := [(''demo'', demoCluster\<lparr>Server := ''https://10.0.0.5:8443''\<rparr>)]\<rparr>"
  have c: "cmd_Namespace podCmd = ''vc''" "cmd_Server podCmd = ''''" "cmd_LocalPort podCmd = 8443"
    "cmd_Address podCmd = ''''" "cmd_UpdateCurrent podCmd = False" "cmd_Print podCmd = False"
    "cmd_PodName podCmd = ''demo-0''"
    by (simp_all add: podCmd_def demoCmd_def)
  have ne: "cmd_PodName podCmd \<noteq> ''''" by (simp add: c)
  have g: "GetKubeConfig demoEnv '''' ''demo-0'' (cmd_Namespace podCmd) [] = (Inr demoConfig, ?w2)"
    unfolding c by (rule pod_stages)
  have one: "length (Clusters demoConfig) = 1" by (simp add: demoConfig_def)
  have rw: "rewriteClusters (cmd_Server podCmd) (cmd_LocalPort podCmd) '''' (Clusters demoConfig)
       = Inr ('''', ''6443'', [(''demo'', demoCluster\<lparr>Server := ''https://10.0.0.5:8443''\<rparr>)])"
    by (simp add: c demoConfig_def demo_rewrite_tunnel Itoa_8443 Let_def)
  have u: "podCmd\<lparr>cmd_Server := ''''\<rparr> = podCmd" using c(2) by simp
  obtain w4 where h: "writeKubeConfig demoEnv (podCmd\<lparr>cmd_Server := ''''\<rparr>) '''' ?cfg ?w2 = (None, w4)"
    unfolding u using demo_writeKubeConfig[OF c(5,6)] by blast
  from Connect_tail[OF pod_stages(1) _ pod_stages(2) g one pod_stages(4) rw h] ne
  have run: "Connect demoEnv podCmd '''' =
          (Blocks, w4 @ [StartPortForwardingWithRestart '''' ''demo-0'' ''vc'' ''8443'' ''6443''])"
    by (simp add: c Itoa_8443 demoEnv_def)
  from C10_pod_only_skips_discovery[OF ne, of demoEnv]
  have "\<not> (\<exists>e\<in>set (snd (Connect demoEnv podCmd '''')). isServiceQuery e)" by blast
  with run c show ?thesis by blast
qed

end
